theory Spec2Isabelle
  imports Complex_Main
begin

section \<open>JavaScript values\<close>

text \<open>
  The adapter reads vendor responses through the type \<^verbatim>\<open>any\<close>: whatever
  \<^verbatim>\<open>response.json()\<close> produced. A value is therefore modelled dynamically. Numbers are
  rationals (every finite double is one; only zero versus non-zero is ever inspected).
  A string is a list of characters, one per code unit (texts whose code units fit a
  \<open>char\<close>). The keys of a parsed object are distinct, so an association list read
  with \<open>map_of\<close> is its property table.
\<close>

datatype jsval =
    Undefined
  | Null
  | JBool bool
  | JNum rat
  | JStr string
  | JArr "jsval list"
  | JObj "(string \<times> jsval) list"

text \<open>The truthiness test behind \<^verbatim>\<open>||\<close>, \<^verbatim>\<open>!x\<close> and \<^verbatim>\<open>c ? a : b\<close>.\<close>

fun truthy :: "jsval \<Rightarrow> bool" where
  "truthy Undefined = False"
| "truthy Null = False"
| "truthy (JBool b) = b"
| "truthy (JNum n) = (n \<noteq> 0)"
| "truthy (JStr s) = (s \<noteq> [])"
| "truthy (JArr xs) = True"
| "truthy (JObj kvs) = True"

text \<open>\<^verbatim>\<open>a || b\<close> on values that are already computed.\<close>

definition js_or :: "jsval \<Rightarrow> jsval \<Rightarrow> jsval" where
  "js_or a b = (if truthy a then a else b)"

fun nullish :: "jsval \<Rightarrow> bool" where
  "nullish Undefined = True"
| "nullish Null = True"
| "nullish v = False"

text \<open>
  Reading a named property of a value that is neither null nor undefined. The source
  reads only the names error, message, choices, content, text, candidates and parts;
  none of them is inherited from a prototype, so arrays, strings, numbers and booleans
  answer undefined.
\<close>

fun read_prop :: "string \<Rightarrow> jsval \<Rightarrow> jsval" where
  "read_prop k (JObj kvs) = (case map_of kvs k of Some v \<Rightarrow> v | None \<Rightarrow> Undefined)"
| "read_prop k v = Undefined"

text \<open>Reading index 0: the first element of an array, the first code unit of a string,
  the property named 0 of an object.\<close>

fun index0 :: "jsval \<Rightarrow> jsval" where
  "index0 (JArr []) = Undefined"
| "index0 (JArr (x # xs)) = x"
| "index0 (JStr []) = Undefined"
| "index0 (JStr (c # cs)) = JStr [c]"
| "index0 (JObj kvs) = (case map_of kvs ''0'' of Some v \<Rightarrow> v | None \<Rightarrow> Undefined)"
| "index0 v = Undefined"

text \<open>Optional chaining \<^verbatim>\<open>v?.k\<close> and \<^verbatim>\<open>v?.[0]\<close>.\<close>

definition opt_prop :: "string \<Rightarrow> jsval \<Rightarrow> jsval" where
  "opt_prop k v = (if nullish v then Undefined else read_prop k v)"

definition opt_index0 :: "jsval \<Rightarrow> jsval" where
  "opt_index0 v = (if nullish v then Undefined else index0 v)"

section \<open>Errors\<close>

datatype error_kind = Quota | Auth | Network | Unknown

text \<open>
  \<^verbatim>\<open>interface APIError\<close>. The message is declared a string, but the classifier copies
  it from the vendor body unchecked, so the field holds a value.
\<close>

record APIError =
  type :: error_kind
  message :: jsval
  suggestion :: string

text \<open>
  What a \<^verbatim>\<open>throw\<close> carries: one of the adapter's own error objects (it has a
  \<^verbatim>\<open>type\<close> property), or a native \<^verbatim>\<open>Error\<close> instance with its message (it has none).
  The wording of the engine's own messages is not modelled; each is named by its class.
\<close>

datatype thrown = Api APIError | Native string

text \<open>Plain property access \<^verbatim>\<open>v.k\<close>: reading a property of null or undefined raises.\<close>

definition get_prop :: "string \<Rightarrow> jsval \<Rightarrow> thrown + jsval" where
  "get_prop k v = (if nullish v then Inl (Native ''TypeError'') else Inr (read_prop k v))"

text \<open>\<^verbatim>\<open>t.includes(s)\<close> on strings: \<open>s\<close> occurs in \<open>t\<close> as a contiguous run.\<close>

fun str_includes :: "string \<Rightarrow> string \<Rightarrow> bool" where
  "str_includes [] s = (s = [])"
| "str_includes (c # t) s = (take (length s) (c # t) = s \<or> str_includes t s)"

text \<open>
  \<^verbatim>\<open>v.includes(s)\<close> on a truthy value: substring search on a string, membership of
  the string \<open>s\<close> on an array; a number, a boolean or a parsed object has no callable
  \<^verbatim>\<open>includes\<close>, and the call raises.
\<close>

fun js_includes :: "jsval \<Rightarrow> string \<Rightarrow> thrown + bool" where
  "js_includes (JStr t) s = Inr (str_includes t s)"
| "js_includes (JArr xs) s = Inr (JStr s \<in> set xs)"
| "js_includes v s = Inl (Native ''TypeError'')"

section \<open>The platform\<close>

text \<open>
  \<^verbatim>\<open>JSON.parse\<close> and the string conversion of template literals belong to the
  JavaScript engine, not to the repository; they are parameters of the model.
  \<open>JSON_parse\<close> answers \<open>None\<close> where the engine raises a SyntaxError.
\<close>

record platform =
  JSON_parse :: "string \<Rightarrow> jsval option"
  ToString :: "jsval \<Rightarrow> string"

text \<open>\<^verbatim>\<open>${v}\<close> in a template literal: a string is inserted as it is.\<close>

definition to_text :: "platform \<Rightarrow> jsval \<Rightarrow> string" where
  "to_text plat v = (case v of JStr s \<Rightarrow> s | _ \<Rightarrow> ToString plat v)"

text \<open>
  One HTTP exchange. \<^verbatim>\<open>fetch\<close> either rejects (no response at all) or yields a
  response with a status and a body; the body is given as what \<^verbatim>\<open>response.json()\<close>
  makes of it, \<open>None\<close> where that rejects. The request keeps the body as the object
  handed to \<^verbatim>\<open>JSON.stringify\<close>.
\<close>

record request =
  url :: string
  http_method :: string
  headers :: "(string \<times> string) list"
  body :: jsval

datatype fetch_outcome = Rejected | Response nat "jsval option"

type_synonym transport = "request \<Rightarrow> fetch_outcome"

definition ok :: "nat \<Rightarrow> bool" where
  "ok status = (200 \<le> status \<and> status \<le> 299)"

section \<open>services/aiService.ts\<close>

record AIProvider =
  name :: string
  baseUrl :: string
  model :: string

datatype role = User | Assistant | System

record ChatMessage =
  role :: role
  content :: string

record AIService =
  apiKey :: string
  provider :: "AIProvider option"

definition providers :: "(string \<times> AIProvider) list" where
  "providers =
    [(''openai'',
        \<lparr>name = ''OpenAI'',
         baseUrl = ''https://api.openai.com/v1/chat/completions'',
         model = ''gpt-3.5-turbo''\<rparr>),
     (''anthropic'',
        \<lparr>name = ''Anthropic'',
         baseUrl = ''https://api.anthropic.com/v1/messages'',
         model = ''claude-3-sonnet-20240229''\<rparr>),
     (''google'',
        \<lparr>name = ''Google'',
         baseUrl = ''https://generativelanguage.googleapis.com/v1beta/models/gemini-pro:generateContent'',
         model = ''gemini-pro''\<rparr>)]"

text \<open>
  The members that the table, an object literal, inherits from \<^verbatim>\<open>Object.prototype\<close>.
  For such an identifier \<^verbatim>\<open>providers[type]\<close> is the inherited member: it is truthy, so
  it is what \<^verbatim>\<open>getProvider\<close> returns; its name is no vendor's, and it has no base URL
  and no model.
\<close>

definition inherited_members :: "string list" where
  "inherited_members =
     [''constructor'', ''hasOwnProperty'', ''isPrototypeOf'', ''propertyIsEnumerable'',
      ''toLocaleString'', ''toString'', ''valueOf'', ''__proto__'', ''__defineGetter__'',
      ''__defineSetter__'', ''__lookupGetter__'', ''__lookupSetter__'']"

text \<open>\<^verbatim>\<open>providers[type] || providers.openai\<close>; \<open>None\<close> is an inherited member.\<close>

definition getProvider :: "string \<Rightarrow> AIProvider option" where
  "getProvider ty =
     (case map_of providers ty of
        Some p \<Rightarrow> Some p
      | None \<Rightarrow> if ty \<in> set inherited_members then None else map_of providers ''openai'')"

text \<open>The constructor.\<close>

definition new_AIService :: "string \<Rightarrow> string \<Rightarrow> AIService" where
  "new_AIService key providerType = \<lparr>apiKey = key, provider = getProvider providerType\<rparr>"

text \<open>\<^verbatim>\<open>errorData.error?.message || errorData.message || 'Unknown error'\<close>\<close>

definition errorMessage :: "jsval \<Rightarrow> thrown + jsval" where
  "errorMessage errorData =
     (case get_prop ''error'' errorData of
        Inl e \<Rightarrow> Inl e
      | Inr err \<Rightarrow>
          Inr (js_or (js_or (opt_prop ''message'' err) (read_prop ''message'' errorData))
                     (JStr ''Unknown error'')))"

definition parseError :: "nat \<Rightarrow> jsval \<Rightarrow> thrown + APIError" where
  "parseError status errorData =
     (case errorMessage errorData of
        Inl e \<Rightarrow> Inl e
      | Inr msg \<Rightarrow>
          if status = 401 then
            Inr \<lparr>type = Auth,
                 message = JStr ''Invalid API key'',
                 suggestion = ''Please check your API key in Settings and make sure it's correct.''\<rparr>
          else if status = 429 then
            (case js_includes msg ''quota'' of
               Inl e \<Rightarrow> Inl e
             | Inr q \<Rightarrow>
                 (case (if q then Inr True else js_includes msg ''billing'') of
                    Inl e \<Rightarrow> Inl e
                  | Inr b \<Rightarrow>
                      if b then
                        Inr \<lparr>type = Quota,
                             message = JStr ''API quota exceeded'',
                             suggestion = ''Please check your billing details or try a different API provider.''\<rparr>
                      else
                        Inr \<lparr>type = Quota,
                             message = JStr ''Rate limit exceeded'',
                             suggestion = ''Please wait a moment and try again.''\<rparr>))
          else if status = 500 \<or> status = 502 \<or> status = 503 then
            Inr \<lparr>type = Network,
                 message = JStr ''Service temporarily unavailable'',
                 suggestion = ''Please try again in a few moments.''\<rparr>
          else
            Inr \<lparr>type = Unknown,
                 message = msg,
                 suggestion = ''Please try again or contact support if the issue persists.''\<rparr>)"

text \<open>The system instruction of \<^verbatim>\<open>chat\<close>; \<open>None\<close> is an omitted argument.\<close>

definition systemMessage :: "string option \<Rightarrow> string" where
  "systemMessage resourceContext =
     (case resourceContext of
        None \<Rightarrow> ''You are an AI learning assistant. Help the user with their questions.''
      | Some c \<Rightarrow>
          if c \<noteq> [] then
            ''You are an AI learning assistant. Help the user understand and learn from this content: ''
              @ take 1000 c @ ''...''
          else ''You are an AI learning assistant. Help the user with their questions.'')"

definition role_name :: "role \<Rightarrow> string" where
  "role_name r = (case r of User \<Rightarrow> ''user'' | Assistant \<Rightarrow> ''assistant'' | System \<Rightarrow> ''system'')"

text \<open>A message object as \<^verbatim>\<open>...userMessages\<close> puts it into the body.\<close>

definition message_object :: "ChatMessage \<Rightarrow> jsval" where
  "message_object m = JObj [(''role'', JStr (role_name (role m))), (''content'', JStr (content m))]"

definition buildRequestBody :: "AIProvider \<Rightarrow> ChatMessage list \<Rightarrow> string \<Rightarrow> thrown + jsval" where
  "buildRequestBody p msgs sys =
     (let userMessages = filter (\<lambda>m. role m \<noteq> System) msgs in
      if name p = ''OpenAI'' then
        Inr (JObj
          [(''model'', JStr (model p)),
           (''messages'',
              JArr (JObj [(''role'', JStr ''system''), (''content'', JStr sys)]
                    # map message_object userMessages)),
           (''max_tokens'', JNum 1000),
           (''temperature'', JNum (7 / 10))])
      else if name p = ''Anthropic'' then
        Inr (JObj
          [(''model'', JStr (model p)),
           (''max_tokens'', JNum 1000),
           (''system'', JStr sys),
           (''messages'',
              JArr (map (\<lambda>m. JObj
                      [(''role'', JStr (if role m = Assistant then ''assistant'' else ''user'')),
                       (''content'', JStr (content m))]) userMessages))])
      else if name p = ''Google'' then
        Inr (JObj
          [(''contents'',
              JArr (JObj [(''parts'', JArr [JObj [(''text'', JStr sys)]])]
                    # map (\<lambda>m. JObj
                        [(''parts'', JArr [JObj [(''text'', JStr (content m))]]),
                         (''role'', JStr (if role m = Assistant then ''model'' else ''user''))])
                      userMessages)),
           (''generationConfig'',
              JObj [(''maxOutputTokens'', JNum 1000), (''temperature'', JNum (7 / 10))])])
      else Inl (Native ''Unsupported AI provider''))"

definition extractResponse :: "AIProvider \<Rightarrow> jsval \<Rightarrow> thrown + jsval" where
  "extractResponse p data =
     (if name p = ''OpenAI'' then
        (case get_prop ''choices'' data of
           Inl e \<Rightarrow> Inl e
         | Inr c \<Rightarrow>
             Inr (js_or (opt_prop ''content'' (opt_prop ''message'' (opt_index0 c)))
                        (JStr ''No response received'')))
      else if name p = ''Anthropic'' then
        (case get_prop ''content'' data of
           Inl e \<Rightarrow> Inl e
         | Inr c \<Rightarrow>
             Inr (js_or (opt_prop ''text'' (opt_index0 c)) (JStr ''No response received'')))
      else if name p = ''Google'' then
        (case get_prop ''candidates'' data of
           Inl e \<Rightarrow> Inl e
         | Inr c \<Rightarrow>
             Inr (js_or
                   (opt_prop ''text''
                      (opt_index0 (opt_prop ''parts'' (opt_prop ''content'' (opt_index0 c)))))
                   (JStr ''No response received'')))
      else Inr (JStr ''No response received''))"

text \<open>The header object literal of \<^verbatim>\<open>chat\<close>, in the order the properties are written.\<close>

definition chat_headers :: "string \<Rightarrow> AIProvider \<Rightarrow> (string \<times> string) list" where
  "chat_headers key p =
     [(''Content-Type'', ''application/json''),
      (''Authorization'', ''Bearer '' @ key)]
     @ (if name p = ''Anthropic''
        then [(''x-api-key'', key), (''anthropic-version'', ''2023-06-01'')]
        else [])"

text \<open>The \<^verbatim>\<open>catch\<close> block of \<^verbatim>\<open>chat\<close>: the adapter's own errors pass, anything else
  becomes the connection error.\<close>

definition chat_catch :: "thrown \<Rightarrow> thrown" where
  "chat_catch e =
     (case e of
        Api a \<Rightarrow> Api a
      | Native m \<Rightarrow>
          Api \<lparr>type = Network,
               message = JStr ''Connection failed'',
               suggestion = ''Please check your internet connection and try again.''\<rparr>)"

text \<open>
  \<^verbatim>\<open>chat\<close>. The result is paired with the requests that were sent, in order, so that
  "no network call" is the empty list. The arguments of \<^verbatim>\<open>fetch\<close> are evaluated before
  the call, so a body that cannot be built means no request. Where the provider is an
  inherited member, \<^verbatim>\<open>buildRequestBody\<close> finds no vendor name and raises.
\<close>

definition chat ::
  "AIService \<Rightarrow> transport \<Rightarrow> ChatMessage list \<Rightarrow> string option \<Rightarrow> request list \<times> (thrown + jsval)"
where
  "chat svc net msgs resourceContext =
     (case provider svc of
        None \<Rightarrow> ([], Inl (chat_catch (Native ''Unsupported AI provider'')))
      | Some p \<Rightarrow>
     (case buildRequestBody p msgs (systemMessage resourceContext) of
        Inl e \<Rightarrow> ([], Inl (chat_catch e))
      | Inr b \<Rightarrow>
          (let req = \<lparr>url = baseUrl p, http_method = ''POST'',
                      headers = chat_headers (apiKey svc) p, body = b\<rparr>
           in ([req],
               (case net req of
                  Rejected \<Rightarrow> Inl (chat_catch (Native ''TypeError''))
                | Response status parsed \<Rightarrow>
                    if \<not> ok status then
                      (let errorData =
                         (case parsed of
                            Some d \<Rightarrow> d
                          | None \<Rightarrow>
                              JObj [(''error'',
                                JObj [(''message'', JStr ''Failed to parse error response'')])])
                       in case parseError status errorData of
                            Inl e \<Rightarrow> Inl (chat_catch e)
                          | Inr apiError \<Rightarrow> Inl (chat_catch (Api apiError)))
                    else
                      (case parsed of
                         None \<Rightarrow> Inl (chat_catch (Native ''SyntaxError''))
                       | Some data \<Rightarrow>
                           (case extractResponse p data of
                              Inl e \<Rightarrow> Inl (chat_catch e)
                            | Inr v \<Rightarrow> Inr v)))))))"

text \<open>
  The regular expression \<^verbatim>\<open>/\[[\s\S]*\]/\<close> of \<^verbatim>\<open>response.match\<close>: the leftmost opening
  bracket, then as much as possible up to a closing bracket. \<open>None\<close> is the
  \<^verbatim>\<open>null\<close> of a failed match, \<open>Some m\<close> is \<^verbatim>\<open>jsonMatch[0]\<close>.
\<close>

definition bracket_match :: "string \<Rightarrow> string option" where
  "bracket_match s =
     (case dropWhile (\<lambda>c. c \<noteq> CHR ''['') s of
        [] \<Rightarrow> None
      | b # t \<Rightarrow>
          (case dropWhile (\<lambda>c. c \<noteq> CHR '']'') (rev t) of
             [] \<Rightarrow> None
           | r # rs \<Rightarrow> Some (b # rev (r # rs))))"

text \<open>\<^verbatim>\<open>response.match(...)\<close>: only a string has the method.\<close>

fun js_match :: "jsval \<Rightarrow> thrown + string option" where
  "js_match (JStr s) = Inr (bracket_match s)"
| "js_match v = Inl (Native ''TypeError'')"

definition flashcard :: "string \<Rightarrow> string \<Rightarrow> jsval" where
  "flashcard q a = JObj [(''question'', JStr q), (''answer'', JStr a)]"

definition quiz_question :: "string \<Rightarrow> string list \<Rightarrow> rat \<Rightarrow> jsval" where
  "quiz_question q opts c =
     JObj [(''question'', JStr q), (''options'', JArr (map JStr opts)), (''correct'', JNum c)]"

definition createFallbackFlashcards :: "string \<Rightarrow> jsval" where
  "createFallbackFlashcards cont =
     JArr
      [flashcard ''What is the main topic of this content?''
         ''The content focuses on learning and understanding key concepts from the uploaded material.'',
       flashcard ''What are the key learning objectives?''
         ''To extract important information and create study materials for better comprehension.'',
       flashcard ''How can this content be applied?''
         ''The concepts can be used to enhance understanding and retention of the subject matter.'']"

definition createFallbackQuiz :: "string \<Rightarrow> jsval" where
  "createFallbackQuiz cont =
     JArr
      [quiz_question ''What type of content are you studying?''
         [''Educational material'', ''Entertainment'', ''News article'', ''Technical documentation''] 0,
       quiz_question ''What is the purpose of creating study materials?''
         [''To pass time'', ''To enhance learning'', ''To create complexity'', ''To avoid studying''] 1]"

definition generateSummary ::
  "AIService \<Rightarrow> transport \<Rightarrow> string \<Rightarrow> request list \<times> (thrown + jsval)"
where
  "generateSummary svc net cont =
     chat svc net
       [\<lparr>role = User,
         content =
           ''Please provide a comprehensive summary of this content, highlighting the key points, main themes, and important takeaways:\<newline>\<newline>''
             @ take 3000 cont\<rparr>]
       None"

definition flashcards_prompt :: string where
  \<open>flashcards_prompt =
     ''Create 6 flashcards from this content. Return them as a JSON array with 'question' and 'answer' fields. Format: [{"question": "...", "answer": "..."}]\<newline>\<newline>''\<close>

definition quiz_prompt :: string where
  \<open>quiz_prompt =
     ''Create a 4-question multiple choice quiz from this content. Return as JSON array with 'question', 'options' (array of 4 choices), and 'correct' (index of correct answer). Format: [{"question": "...", "options": ["A", "B", "C", "D"], "correct": 0}]\<newline>\<newline>''\<close>

text \<open>
  The \<^verbatim>\<open>try\<close> body shared by \<^verbatim>\<open>generateFlashcards\<close> and \<^verbatim>\<open>generateQuiz\<close> after the
  call: match, parse, and every way out through \<^verbatim>\<open>catch\<close> or the missing match gives
  the fallback.
\<close>

definition parse_or_fallback :: "platform \<Rightarrow> jsval \<Rightarrow> thrown + jsval \<Rightarrow> jsval" where
  "parse_or_fallback plat fallback r =
     (case r of
        Inl e \<Rightarrow> fallback
      | Inr response \<Rightarrow>
          (case js_match response of
             Inl e \<Rightarrow> fallback
           | Inr None \<Rightarrow> fallback
           | Inr (Some m) \<Rightarrow>
               (case JSON_parse plat m of
                  None \<Rightarrow> fallback
                | Some v \<Rightarrow> v)))"

definition generateFlashcards ::
  "platform \<Rightarrow> AIService \<Rightarrow> transport \<Rightarrow> string \<Rightarrow> request list \<times> (thrown + jsval)"
where
  "generateFlashcards plat svc net cont =
     (let msgs = [\<lparr>role = User, content = flashcards_prompt @ take 3000 cont\<rparr>];
          (reqs, r) = chat svc net msgs None
      in (reqs, Inr (parse_or_fallback plat (createFallbackFlashcards cont) r)))"

definition generateQuiz ::
  "platform \<Rightarrow> AIService \<Rightarrow> transport \<Rightarrow> string \<Rightarrow> request list \<times> (thrown + jsval)"
where
  "generateQuiz plat svc net cont =
     (let msgs = [\<lparr>role = User, content = quiz_prompt @ take 3000 cont\<rparr>];
          (reqs, r) = chat svc net msgs None
      in (reqs, Inr (parse_or_fallback plat (createFallbackQuiz cont) r)))"

section \<open>hooks/useAI.ts\<close>

text \<open>What \<^verbatim>\<open>useAPIKey()\<close> hands to the hook.\<close>

record config =
  cfg_apiKey :: string
  cfg_provider :: string

text \<open>The hook's own \<^verbatim>\<open>ChatMessage\<close>: role user or ai, and the text.\<close>

datatype ui_role = UiUser | UiAi

record ui_message =
  ui_role :: ui_role
  ui_text :: string

text \<open>The two \<^verbatim>\<open>useState\<close> cells.\<close>

record hook_state =
  loading :: bool
  error :: "APIError option"

text \<open>\<^verbatim>\<open>apiKey ? new AIService(apiKey, provider) : null\<close>\<close>

definition aiService :: "config \<Rightarrow> AIService option" where
  "aiService cfg =
     (if cfg_apiKey cfg \<noteq> [] then Some (new_AIService (cfg_apiKey cfg) (cfg_provider cfg))
      else None)"

text \<open>Every native value thrown in this code is an \<^verbatim>\<open>Error\<close> instance.\<close>

definition handleError :: "thrown \<Rightarrow> APIError" where
  "handleError err =
     (case err of
        Api a \<Rightarrow> a
      | Native m \<Rightarrow>
          \<lparr>type = Unknown, message = JStr m,
           suggestion = ''Please try again or check your API configuration.''\<rparr>)"

definition not_configured :: APIError where
  "not_configured =
     \<lparr>type = Auth, message = JStr ''AI service not configured'',
      suggestion = ''Please check your API key in Settings.''\<rparr>"

text \<open>
  Each operation of the hook returns the requests it sent, its result (\<open>Inl\<close> what it
  throws) and the state cells after it. The \<^verbatim>\<open>finally\<close> block has run in every result
  that went through \<^verbatim>\<open>try\<close>.
\<close>

definition sendChatMessage ::
  "config \<Rightarrow> string option \<Rightarrow> transport \<Rightarrow> string \<Rightarrow> ui_message list \<Rightarrow> hook_state
     \<Rightarrow> request list \<times> (thrown + jsval) \<times> hook_state"
where
  "sendChatMessage cfg resourceContent net msg chatHistory st =
     (case aiService cfg of
        None \<Rightarrow> ([], Inl (Api not_configured), st)
      | Some svc \<Rightarrow>
          (let st1 = st\<lparr>loading := True, error := None\<rparr>;
               msgs = map (\<lambda>c. \<lparr>role = (if ui_role c = UiAi then Assistant else User),
                                 content = ui_text c\<rparr>) chatHistory
                      @ [\<lparr>role = User, content = msg\<rparr>];
               (reqs, r) = chat svc net msgs resourceContent
           in case r of
                Inr response \<Rightarrow> (reqs, Inr response, st1\<lparr>loading := False\<rparr>)
              | Inl err \<Rightarrow>
                  (let apiError = handleError err
                   in (reqs, Inl (Api apiError),
                       st1\<lparr>error := Some apiError, loading := False\<rparr>))))"

definition demo_summary :: string where
  "demo_summary = ''This is a demo summary. Upload real content and configure your API key to generate AI-powered summaries of your videos and documents.''"

definition useAI_generateSummary ::
  "config \<Rightarrow> string option \<Rightarrow> platform \<Rightarrow> transport \<Rightarrow> hook_state
     \<Rightarrow> request list \<times> (thrown + jsval) \<times> hook_state"
where
  "useAI_generateSummary cfg resourceContent plat net st =
     (case aiService cfg of
        None \<Rightarrow> ([], Inl (Api not_configured), st)
      | Some svc \<Rightarrow>
          (case resourceContent of
             None \<Rightarrow> ([], Inr (JStr demo_summary), st)
           | Some cont \<Rightarrow>
               if cont = [] then ([], Inr (JStr demo_summary), st)
               else
                 (let st1 = st\<lparr>loading := True, error := None\<rparr>;
                      (reqs, r) = generateSummary svc net cont
                  in case r of
                       Inr summary \<Rightarrow> (reqs, Inr summary, st1\<lparr>loading := False\<rparr>)
                     | Inl err \<Rightarrow>
                         (let apiError = handleError err
                          in (reqs,
                              Inr (JStr (''Unable to generate AI summary due to: ''
                                @ to_text plat (message apiError) @ ''. '' @ suggestion apiError
                                @ ''\<newline>\<newline>Fallback Summary:\<newline>This content contains educational material that can be used for learning purposes. Key concepts include understanding the main topics, extracting important information, and creating study materials for better comprehension.'')),
                              st1\<lparr>error := Some apiError, loading := False\<rparr>)))))"

definition demo_flashcards_unconfigured :: jsval where
  "demo_flashcards_unconfigured =
     JArr
      [flashcard ''Demo Question 1'' ''Configure your API key to generate real flashcards'',
       flashcard ''Demo Question 2''
         ''Upload content and set up AI to create personalized study materials'']"

definition demo_flashcards_no_content :: jsval where
  "demo_flashcards_no_content =
     JArr
      [flashcard ''What is EdiFy?'' ''An AI-powered learning platform for creating study materials'',
       flashcard ''How does it work?''
         ''Upload content and let AI generate summaries, flashcards, and quizzes'']"

definition useAI_generateFlashcards ::
  "config \<Rightarrow> string option \<Rightarrow> platform \<Rightarrow> transport \<Rightarrow> hook_state
     \<Rightarrow> request list \<times> (thrown + jsval) \<times> hook_state"
where
  "useAI_generateFlashcards cfg resourceContent plat net st =
     (case aiService cfg of
        None \<Rightarrow> ([], Inr demo_flashcards_unconfigured, st)
      | Some svc \<Rightarrow>
          (case resourceContent of
             None \<Rightarrow> ([], Inr demo_flashcards_no_content, st)
           | Some cont \<Rightarrow>
               if cont = [] then ([], Inr demo_flashcards_no_content, st)
               else
                 (let st1 = st\<lparr>loading := True, error := None\<rparr>;
                      (reqs, r) = generateFlashcards plat svc net cont
                  in case r of
                       Inr flashcards \<Rightarrow> (reqs, Inr flashcards, st1\<lparr>loading := False\<rparr>)
                     | Inl err \<Rightarrow>
                         (let apiError = handleError err
                          in (reqs,
                              Inr (JArr
                                [flashcard ''API Error Occurred''
                                   (to_text plat (message apiError) @ ''. '' @ suggestion apiError),
                                 flashcard ''Fallback Content''
                                   ''These are demo flashcards. Fix the API issue to generate real content.'']),
                              st1\<lparr>error := Some apiError, loading := False\<rparr>)))))"

definition demo_quiz_unconfigured :: jsval where
  "demo_quiz_unconfigured =
     JArr
      [quiz_question ''What do you need to generate real quizzes?''
         [''A valid API key'', ''Internet connection'', ''Uploaded content'', ''All of the above''] 3]"

definition demo_quiz_no_content :: jsval where
  "demo_quiz_no_content =
     JArr
      [quiz_question ''What is the main purpose of EdiFy?''
         [''Entertainment'', ''AI-powered learning'', ''File storage'', ''Video streaming''] 1]"

definition useAI_generateQuiz ::
  "config \<Rightarrow> string option \<Rightarrow> platform \<Rightarrow> transport \<Rightarrow> hook_state
     \<Rightarrow> request list \<times> (thrown + jsval) \<times> hook_state"
where
  "useAI_generateQuiz cfg resourceContent plat net st =
     (case aiService cfg of
        None \<Rightarrow> ([], Inr demo_quiz_unconfigured, st)
      | Some svc \<Rightarrow>
          (case resourceContent of
             None \<Rightarrow> ([], Inr demo_quiz_no_content, st)
           | Some cont \<Rightarrow>
               if cont = [] then ([], Inr demo_quiz_no_content, st)
               else
                 (let st1 = st\<lparr>loading := True, error := None\<rparr>;
                      (reqs, r) = generateQuiz plat svc net cont
                  in case r of
                       Inr quiz \<Rightarrow> (reqs, Inr quiz, st1\<lparr>loading := False\<rparr>)
                     | Inl err \<Rightarrow>
                         (let apiError = handleError err
                          in (reqs,
                              Inr (JArr
                                [quiz_question (''API Error: '' @ to_text plat (message apiError))
                                   [suggestion apiError, ''Try again later'',
                                    ''Check your API configuration'', ''All of the above''] 3]),
                              st1\<lparr>error := Some apiError, loading := False\<rparr>)))))"

section \<open>The connection test of the setup page\<close>

text \<open>The header table that \<^verbatim>\<open>testConnection\<close> builds for the selected provider, given
  the trimmed key: for Anthropic the two vendor headers are added and
  \<^verbatim>\<open>Authorization\<close> is deleted.\<close>

definition testConnection_headers :: "string \<Rightarrow> string \<Rightarrow> (string \<times> string) list" where
  "testConnection_headers selectedProvider key =
     (if selectedProvider = ''anthropic''
      then [(''x-api-key'', key), (''anthropic-version'', ''2023-06-01'')]
      else [(''Authorization'', ''Bearer '' @ key)])"

section \<open>Shapes of the generated artifacts\<close>

definition is_flashcard :: "jsval \<Rightarrow> bool" where
  "is_flashcard v =
     (case v of
        JObj kvs \<Rightarrow>
          (case map_of kvs ''question'' of
             Some (JStr q) \<Rightarrow>
               (case map_of kvs ''answer'' of Some (JStr a) \<Rightarrow> True | _ \<Rightarrow> False)
           | _ \<Rightarrow> False)
      | _ \<Rightarrow> False)"

fun is_string :: "jsval \<Rightarrow> bool" where
  "is_string (JStr s) = True"
| "is_string v = False"

definition is_quiz_question :: "jsval \<Rightarrow> bool" where
  "is_quiz_question v =
     (case v of
        JObj kvs \<Rightarrow>
          (case map_of kvs ''question'' of
             Some (JStr q) \<Rightarrow>
               (case map_of kvs ''options'' of
                  Some (JArr opts) \<Rightarrow>
                    length opts = 4 \<and> list_all is_string opts \<and>
                    (case map_of kvs ''correct'' of
                       Some (JNum c) \<Rightarrow> c = 0 \<or> c = 1 \<or> c = 2 \<or> c = 3
                     | _ \<Rightarrow> False)
                | _ \<Rightarrow> False)
           | _ \<Rightarrow> False)
      | _ \<Rightarrow> False)"

text \<open>A non-empty array whose every element has the shape.\<close>

definition is_deck :: "(jsval \<Rightarrow> bool) \<Rightarrow> jsval \<Rightarrow> bool" where
  "is_deck shape v = (case v of JArr xs \<Rightarrow> xs \<noteq> [] \<and> list_all shape xs | _ \<Rightarrow> False)"

section \<open>Inputs of the worked examples\<close>

text \<open>A chat-completions body whose first choice carries the text \<open>t\<close>.\<close>

definition openai_reply :: "string \<Rightarrow> jsval" where
  "openai_reply t = JObj [(''choices'', JArr [JObj [(''message'', JObj [(''content'', JStr t)])]])]"

text \<open>The values of \<^verbatim>\<open>JSON.parse\<close> at the two texts the examples parse; the examples
  hand it no other text.\<close>

definition sample_parse :: "string \<Rightarrow> jsval option" where
  \<open>sample_parse s =
     (if s = ''[]'' then Some (JArr [])
      else if s = ''[{"question":"Q1","answer":"A1"}]'' then Some (JArr [flashcard ''Q1'' ''A1''])
      else None)\<close>

definition sample_platform :: platform where
  "sample_platform = \<lparr>JSON_parse = sample_parse, ToString = (\<lambda>v. ''[object Object]'')\<rparr>"

text \<open>The transport that gives every request the same outcome.\<close>

definition always :: "fetch_outcome \<Rightarrow> transport" where
  "always outcome = (\<lambda>req. outcome)"

definition idle :: hook_state where
  "idle = \<lparr>loading = False, error = None\<rparr>"

definition no_key :: config where
  "no_key = \<lparr>cfg_apiKey = [], cfg_provider = ''openai''\<rparr>"

definition with_key :: "string \<Rightarrow> config" where
  "with_key providerId = \<lparr>cfg_apiKey = ''sk-test'', cfg_provider = providerId\<rparr>"

section \<open>The orchestrator without credentials, and without content\<close>

lemma unconfigured: "cfg_apiKey cfg = [] \<Longrightarrow> aiService cfg = None"
  by (simp add: aiService_def)

lemma configured:
  "cfg_apiKey cfg \<noteq> [] \<Longrightarrow>
     aiService cfg = Some (new_AIService (cfg_apiKey cfg) (cfg_provider cfg))"
  by (simp add: aiService_def)

text \<open>
  Claim C7. Two calls of the hook's \<^verbatim>\<open>generateFlashcards\<close> in a row without an API key,
  whatever the content, the platform, the transport and the state before them: both
  return the same fixed two-card demo deck, neither sends a request, and the state cells
  are left as they were.
\<close>

theorem unconfigured_flashcards_repeat:
  assumes "cfg_apiKey cfg = []"
  shows "(case useAI_generateFlashcards cfg rc plat net st of
            (reqs1, r1, st1) \<Rightarrow>
              (case useAI_generateFlashcards cfg rc' plat' net' st1 of
                 (reqs2, r2, st2) \<Rightarrow>
                   r1 = Inr demo_flashcards_unconfigured \<and> r2 = r1 \<and>
                   reqs1 = [] \<and> reqs2 = [] \<and> st1 = st \<and> st2 = st))"
  using assms by (simp add: useAI_generateFlashcards_def unconfigured)

theorem unconfigured_flashcards_repeat_witness:
  "cfg_apiKey no_key = [] \<and>
   (case useAI_generateFlashcards no_key (Some ''notes'') sample_platform (always Rejected) idle of
      (reqs1, r1, st1) \<Rightarrow>
        (case useAI_generateFlashcards no_key None sample_platform
                (always (Response 200 (Some (openai_reply ''[]'')))) st1 of
           (reqs2, r2, st2) \<Rightarrow>
             r1 = Inr demo_flashcards_unconfigured \<and> r2 = r1 \<and>
             reqs1 = [] \<and> reqs2 = [] \<and> st1 = idle \<and> st2 = idle))"
proof -
  have h: "cfg_apiKey no_key = []" by (simp add: no_key_def)
  show ?thesis
    using h unconfigured_flashcards_repeat [OF h,
      where rc = "Some ''notes''" and plat = sample_platform and net = "always Rejected"
        and st = idle and rc' = None and plat' = sample_platform
        and net' = "always (Response 200 (Some (openai_reply ''[]'')))"]
    by simp
qed

text \<open>
  Claim C9. With an API key and the empty string as content, the hook's
  \<^verbatim>\<open>generateSummary\<close>, \<^verbatim>\<open>generateFlashcards\<close> and \<^verbatim>\<open>generateQuiz\<close> each return their fixed
  demo artifact, send no request and leave the state cells alone; the result is the one
  for absent content.
\<close>

theorem empty_content_returns_demo:
  assumes "cfg_apiKey cfg \<noteq> []"
  shows "useAI_generateSummary cfg (Some []) plat net st = ([], Inr (JStr demo_summary), st) \<and>
         useAI_generateFlashcards cfg (Some []) plat net st
           = ([], Inr demo_flashcards_no_content, st) \<and>
         useAI_generateQuiz cfg (Some []) plat net st = ([], Inr demo_quiz_no_content, st) \<and>
         useAI_generateSummary cfg (Some []) plat net st
           = useAI_generateSummary cfg None plat net st \<and>
         useAI_generateFlashcards cfg (Some []) plat net st
           = useAI_generateFlashcards cfg None plat net st \<and>
         useAI_generateQuiz cfg (Some []) plat net st
           = useAI_generateQuiz cfg None plat net st"
  using assms
  by (simp add: useAI_generateSummary_def useAI_generateFlashcards_def
        useAI_generateQuiz_def configured)

theorem empty_content_returns_demo_witness:
  "cfg_apiKey (with_key ''google'') \<noteq> [] \<and>
   useAI_generateSummary (with_key ''google'') (Some []) sample_platform (always Rejected) idle
     = ([], Inr (JStr demo_summary), idle) \<and>
   useAI_generateFlashcards (with_key ''google'') (Some []) sample_platform (always Rejected) idle
     = ([], Inr demo_flashcards_no_content, idle) \<and>
   useAI_generateQuiz (with_key ''google'') (Some []) sample_platform (always Rejected) idle
     = ([], Inr demo_quiz_no_content, idle)"
proof -
  have h: "cfg_apiKey (with_key ''google'') \<noteq> []" by (simp add: with_key_def)
  show ?thesis
    using h empty_content_returns_demo [OF h,
      where plat = sample_platform and net = "always Rejected" and st = idle]
    by simp
qed

text \<open>
  Claim C2. Without an API key no operation of the hook sends a request or touches the
  state cells. \<^verbatim>\<open>generateFlashcards\<close> and \<^verbatim>\<open>generateQuiz\<close> return their demo decks and
  \<^verbatim>\<open>sendChatMessage\<close> raises the auth error "AI service not configured". The summary
  operation does not return demo content: \<^verbatim>\<open>generateSummary\<close> raises the same auth error
  as the chat.
\<close>

theorem unconfigured_operations:
  assumes "cfg_apiKey cfg = []"
  shows "useAI_generateSummary cfg rc plat net st = ([], Inl (Api not_configured), st) \<and>
         useAI_generateFlashcards cfg rc plat net st
           = ([], Inr demo_flashcards_unconfigured, st) \<and>
         useAI_generateQuiz cfg rc plat net st = ([], Inr demo_quiz_unconfigured, st) \<and>
         sendChatMessage cfg rc net msg chatHistory st = ([], Inl (Api not_configured), st) \<and>
         type not_configured = Auth \<and>
         message not_configured = JStr ''AI service not configured''"
  using assms
  by (simp add: useAI_generateSummary_def useAI_generateFlashcards_def
        useAI_generateQuiz_def sendChatMessage_def unconfigured not_configured_def)

theorem unconfigured_operations_witness:
  "cfg_apiKey no_key = [] \<and>
   useAI_generateSummary no_key (Some ''notes'') sample_platform (always Rejected) idle
     = ([], Inl (Api not_configured), idle) \<and>
   sendChatMessage no_key (Some ''notes'') (always Rejected) ''hi'' [] idle
     = ([], Inl (Api not_configured), idle)"
proof -
  have h: "cfg_apiKey no_key = []" by (simp add: no_key_def)
  show ?thesis
    using h unconfigured_operations [OF h,
      where rc = "Some ''notes''" and plat = sample_platform and net = "always Rejected"
        and st = idle and msg = "''hi''" and chatHistory = "[]"]
    by simp
qed

section \<open>The adapter's chat operation\<close>

lemma getProvider_cases:
  "getProvider ty = None \<and> ty \<in> set inherited_members
   \<or> getProvider ty = Some \<lparr>name = ''OpenAI'',
         baseUrl = ''https://api.openai.com/v1/chat/completions'', model = ''gpt-3.5-turbo''\<rparr>
   \<or> getProvider ty = Some \<lparr>name = ''Anthropic'',
         baseUrl = ''https://api.anthropic.com/v1/messages'',
         model = ''claude-3-sonnet-20240229''\<rparr>
   \<or> getProvider ty = Some \<lparr>name = ''Google'',
         baseUrl = ''https://generativelanguage.googleapis.com/v1beta/models/gemini-pro:generateContent'',
         model = ''gemini-pro''\<rparr>"
  by (simp add: getProvider_def providers_def)

lemma getProvider_name:
  "getProvider pid = Some p \<Longrightarrow>
     name p = ''OpenAI'' \<or> name p = ''Anthropic'' \<or> name p = ''Google''"
  using getProvider_cases [of pid] by auto

lemma getProvider_known:
  "getProvider ''openai'' = Some \<lparr>name = ''OpenAI'',
         baseUrl = ''https://api.openai.com/v1/chat/completions'', model = ''gpt-3.5-turbo''\<rparr>"
  "getProvider ''anthropic'' = Some \<lparr>name = ''Anthropic'',
         baseUrl = ''https://api.anthropic.com/v1/messages'',
         model = ''claude-3-sonnet-20240229''\<rparr>"
  "getProvider ''google'' = Some \<lparr>name = ''Google'',
         baseUrl = ''https://generativelanguage.googleapis.com/v1beta/models/gemini-pro:generateContent'',
         model = ''gemini-pro''\<rparr>"
  by (simp_all add: getProvider_def providers_def)

lemma new_AIService_sel [simp]:
  "apiKey (new_AIService key pid) = key" "provider (new_AIService key pid) = getProvider pid"
  by (simp_all add: new_AIService_def)

lemma chat_no_provider:
  "provider svc = None \<Longrightarrow> fst (chat svc net msgs ctx) = []"
  by (simp add: chat_def)

lemma chat_requests:
  "provider svc = Some p \<Longrightarrow> buildRequestBody p msgs (systemMessage ctx) = Inr b \<Longrightarrow>
   fst (chat svc net msgs ctx) =
     [\<lparr>url = baseUrl p, http_method = ''POST'', headers = chat_headers (apiKey svc) p,
       body = b\<rparr>]"
  by (simp add: chat_def Let_def)

lemma js_or_truthy: "truthy b \<Longrightarrow> truthy (js_or a b)"
  by (simp add: js_or_def)

lemma extractResponse_truthy: "extractResponse p data = Inr v \<Longrightarrow> truthy v"
  by (auto simp: extractResponse_def js_or_truthy split: if_splits sum.splits)

lemma chat_result_truthy: "snd (chat svc net msgs ctx) = Inr v \<Longrightarrow> truthy v"
  by (auto simp: chat_def Let_def extractResponse_truthy
      split: sum.splits fetch_outcome.splits if_splits option.splits)

lemma chat_ok:
  "provider svc = Some p \<Longrightarrow> buildRequestBody p msgs (systemMessage ctx) = Inr b \<Longrightarrow>
   net \<lparr>url = baseUrl p, http_method = ''POST'', headers = chat_headers (apiKey svc) p,
        body = b\<rparr> = Response status (Some data) \<Longrightarrow>
   ok status \<Longrightarrow> extractResponse p data = Inr v \<Longrightarrow>
   snd (chat svc net msgs ctx) = Inr v"
  by (simp add: chat_def Let_def)

lemma buildRequestBody_total:
  "getProvider ty = Some p \<Longrightarrow> \<exists>b. buildRequestBody p msgs sys = Inr b"
  using getProvider_name [of ty p] by (auto simp: buildRequestBody_def Let_def)

lemma chat_failed:
  assumes "\<And>req. net req = Rejected \<or> (\<exists>status b. net req = Response status b \<and> \<not> ok status)"
  shows "\<exists>e. snd (chat svc net msgs ctx) = Inl e"
proof (cases "provider svc")
  case None
  then show ?thesis by (simp add: chat_def)
next
  case (Some p)
  show ?thesis
  proof (cases "buildRequestBody p msgs (systemMessage ctx)")
    case (Inl e)
    then show ?thesis by (simp add: chat_def Some)
  next
    case (Inr b)
    let ?req = "\<lparr>url = baseUrl p, http_method = ''POST'',
                  headers = chat_headers (apiKey svc) p, body = b\<rparr>"
    from assms [of ?req] show ?thesis
      by (auto simp: chat_def Some Inr Let_def split: sum.splits)
  qed
qed

lemma chat_openai_reply:
  assumes "t \<noteq> []"
  shows "snd (chat (new_AIService key ''openai'') (always (Response 200 (Some (openai_reply t))))
            msgs ctx) = Inr (JStr t)"
proof -
  let ?p = "\<lparr>name = ''OpenAI'', baseUrl = ''https://api.openai.com/v1/chat/completions'',
             model = ''gpt-3.5-turbo''\<rparr>"
  have p: "provider (new_AIService key ''openai'') = Some ?p"
    by (simp add: getProvider_known)
  obtain b where b: "buildRequestBody ?p msgs (systemMessage ctx) = Inr b"
    using buildRequestBody_total [OF getProvider_known(1)] by blast
  have e: "extractResponse ?p (openai_reply t) = Inr (JStr t)"
    using assms by (simp add: extractResponse_def get_prop_def openai_reply_def opt_prop_def
        opt_index0_def js_or_def)
  have o: "ok 200" by (simp add: ok_def)
  show ?thesis
    by (rule chat_ok [OF p b _ o e]) (simp add: always_def)
qed

lemma extractResponse_falsy:
  assumes "\<not> nullish data"
    and "f = (if name p = ''OpenAI'' then
                opt_prop ''content'' (opt_prop ''message'' (opt_index0 (read_prop ''choices'' data)))
              else if name p = ''Anthropic'' then
                opt_prop ''text'' (opt_index0 (read_prop ''content'' data))
              else
                opt_prop ''text'' (opt_index0 (opt_prop ''parts''
                  (opt_prop ''content'' (opt_index0 (read_prop ''candidates'' data))))))"
    and "name p = ''OpenAI'' \<or> name p = ''Anthropic'' \<or> name p = ''Google''"
  shows "extractResponse p data = Inr (js_or f (JStr ''No response received''))"
  using assms by (auto simp: extractResponse_def get_prop_def)

text \<open>
  Claim C5. Every request that \<^verbatim>\<open>chat\<close> sends for the provider identifier anthropic
  carries \<^verbatim>\<open>x-api-key\<close> with the credential and \<^verbatim>\<open>anthropic-version\<close>, and it also
  carries \<^verbatim>\<open>Authorization: Bearer\<close> with the credential: the header literal writes
  \<^verbatim>\<open>Authorization\<close> for every provider and only adds the two vendor headers. The
  connection test of the setup page deletes \<^verbatim>\<open>Authorization\<close> for the same provider.
  For openai and google the request has the bearer token and no vendor header.
\<close>

theorem anthropic_sends_authorization:
  "map headers (fst (chat (new_AIService key ''anthropic'') net msgs ctx)) =
     [[(''Content-Type'', ''application/json''), (''Authorization'', ''Bearer '' @ key),
       (''x-api-key'', key), (''anthropic-version'', ''2023-06-01'')]] \<and>
   map_of (testConnection_headers ''anthropic'' key) ''Authorization'' = None \<and>
   map headers (fst (chat (new_AIService key ''openai'') net msgs ctx)) =
     [[(''Content-Type'', ''application/json''), (''Authorization'', ''Bearer '' @ key)]] \<and>
   map headers (fst (chat (new_AIService key ''google'') net msgs ctx)) =
     [[(''Content-Type'', ''application/json''), (''Authorization'', ''Bearer '' @ key)]]"
proof -
  have req: "map headers (fst (chat (new_AIService key pid) net msgs ctx)) = [chat_headers key p]"
    if gp: "getProvider pid = Some p" for pid p
  proof -
    obtain b where "buildRequestBody p msgs (systemMessage ctx) = Inr b"
      using buildRequestBody_total [OF gp] by blast
    then show ?thesis using gp by (simp add: chat_requests [where p = p])
  qed
  have d: "map_of (testConnection_headers ''anthropic'' key) ''Authorization'' = None"
    by (simp add: testConnection_headers_def)
  show ?thesis
    by (simp add: req [OF getProvider_known(1)] req [OF getProvider_known(2)]
        req [OF getProvider_known(3)] d chat_headers_def)
qed

theorem anthropic_sends_authorization_witness:
  "map (\<lambda>r. map_of (headers r) ''Authorization'')
      (fst (chat (new_AIService ''sk-test'' ''anthropic'') (always Rejected)
         [\<lparr>role = User, content = ''hi''\<rparr>] None)) = [Some ''Bearer sk-test'']"
proof -
  let ?rs = "fst (chat (new_AIService ''sk-test'' ''anthropic'') (always Rejected)
         [\<lparr>role = User, content = ''hi''\<rparr>] None)"
  have h: "map headers ?rs =
     [[(''Content-Type'', ''application/json''), (''Authorization'', ''Bearer '' @ ''sk-test''),
       (''x-api-key'', ''sk-test''), (''anthropic-version'', ''2023-06-01'')]]"
    using anthropic_sends_authorization [where key = "''sk-test''" and net = "always Rejected"
      and msgs = "[\<lparr>role = User, content = ''hi''\<rparr>]" and ctx = None]
    by (rule conjunct1)
  have "map (\<lambda>r. map_of (headers r) ''Authorization'') ?rs
      = map (\<lambda>h. map_of h ''Authorization'') (map headers ?rs)"
    by (simp add: comp_def)
  also have "\<dots> = [Some ''Bearer sk-test'']"
    unfolding h by simp
  finally show ?thesis .
qed

text \<open>
  Claim C8, as stated, at the empty string as grounding content: the test
  \<^verbatim>\<open>resourceContext ? ... : ...\<close> takes the empty string for absent, so the instruction
  sent is the generic one and not the template over the first 1000 characters of the
  content.
\<close>

theorem chat_empty_grounding_counterexample:
  "map (read_prop ''system'' \<circ> body)
      (fst (chat (new_AIService ''sk-test'' ''anthropic'') (always Rejected) [] (Some ''''))) =
     [JStr ''You are an AI learning assistant. Help the user with their questions.''] \<and>
   ''You are an AI learning assistant. Help the user with their questions.'' \<noteq>
   ''You are an AI learning assistant. Help the user understand and learn from this content: ''
     @ take 1000 '''' @ ''...''"
  by (simp add: chat_def Let_def buildRequestBody_def getProvider_known systemMessage_def)

text \<open>
  Claim C8, amended. For every key, provider identifier, transport, history and
  grounding content, \<^verbatim>\<open>chat\<close> sends one request whose body is the vendor's shape over
  the history without its system-role messages and over the system instruction; the
  instruction is the template around the first 1000 characters of the grounding content
  when that is a non-empty string, and the generic instruction when it is omitted or
  empty. Removing the system-role messages beforehand gives the same body.
\<close>

theorem chat_request_body:
  "map body (fst (chat (new_AIService key pid) net msgs ctx)) =
     (case getProvider pid of
        None \<Rightarrow> []
      | Some p \<Rightarrow>
         (let kept = filter (\<lambda>m. role m \<noteq> System) msgs;
              sys = (case ctx of
                 None \<Rightarrow> ''You are an AI learning assistant. Help the user with their questions.''
               | Some c \<Rightarrow>
                   if c = []
                   then ''You are an AI learning assistant. Help the user with their questions.''
                   else ''You are an AI learning assistant. Help the user understand and learn from this content: ''
                          @ take 1000 c @ ''...'')
          in [if name p = ''OpenAI'' then
                JObj [(''model'', JStr ''gpt-3.5-turbo''),
                      (''messages'',
                         JArr (JObj [(''role'', JStr ''system''), (''content'', JStr sys)]
                           # map (\<lambda>m. JObj
                               [(''role'', JStr (if role m = Assistant then ''assistant'' else ''user'')),
                                (''content'', JStr (content m))]) kept)),
                      (''max_tokens'', JNum 1000), (''temperature'', JNum (7 / 10))]
              else if name p = ''Anthropic'' then
                JObj [(''model'', JStr ''claude-3-sonnet-20240229''), (''max_tokens'', JNum 1000),
                      (''system'', JStr sys),
                      (''messages'',
                         JArr (map (\<lambda>m. JObj
                               [(''role'', JStr (if role m = Assistant then ''assistant'' else ''user'')),
                                (''content'', JStr (content m))]) kept))]
              else
                JObj [(''contents'',
                         JArr (JObj [(''parts'', JArr [JObj [(''text'', JStr sys)]])]
                           # map (\<lambda>m. JObj
                               [(''parts'', JArr [JObj [(''text'', JStr (content m))]]),
                                (''role'', JStr (if role m = Assistant then ''model'' else ''user''))])
                             kept)),
                      (''generationConfig'',
                         JObj [(''maxOutputTokens'', JNum 1000), (''temperature'', JNum (7 / 10))])]]))
   \<and> map body (fst (chat (new_AIService key pid) net msgs ctx)) =
     map body (fst (chat (new_AIService key pid) net (filter (\<lambda>m. role m \<noteq> System) msgs) ctx))"
proof (cases "getProvider pid")
  case None
  then show ?thesis by (simp add: chat_no_provider)
next
  case (Some p)
  let ?kept = "filter (\<lambda>m. role m \<noteq> System) msgs"
  have kept: "map message_object ?kept =
      map (\<lambda>m. JObj [(''role'', JStr (if role m = Assistant then ''assistant'' else ''user'')),
                       (''content'', JStr (content m))]) ?kept"
    by (rule map_cong) (auto simp: message_object_def role_name_def split: role.splits)
  have sys: "systemMessage ctx =
     (case ctx of
        None \<Rightarrow> ''You are an AI learning assistant. Help the user with their questions.''
      | Some c \<Rightarrow>
          if c = [] then ''You are an AI learning assistant. Help the user with their questions.''
          else ''You are an AI learning assistant. Help the user understand and learn from this content: ''
                 @ take 1000 c @ ''...'')"
    by (simp add: systemMessage_def split: option.splits)
  have idem: "buildRequestBody q ?kept s = buildRequestBody q msgs s" for q s
    by (simp add: buildRequestBody_def Let_def)
  obtain b where b: "buildRequestBody p msgs (systemMessage ctx) = Inr b"
    using buildRequestBody_total [OF Some] by blast
  have 1: "map body (fst (chat (new_AIService key pid) net msgs ctx)) = [b]"
    using b Some by (simp add: chat_requests [where p = p])
  have 2: "map body (fst (chat (new_AIService key pid) net ?kept ctx)) = [b]"
    using b Some by (simp add: chat_requests [where p = p] idem)
  have 3: "b =
     (if name p = ''OpenAI'' then
        JObj [(''model'', JStr ''gpt-3.5-turbo''),
              (''messages'',
                 JArr (JObj [(''role'', JStr ''system''), (''content'', JStr (systemMessage ctx))]
                       # map message_object ?kept)),
              (''max_tokens'', JNum 1000), (''temperature'', JNum (7 / 10))]
      else if name p = ''Anthropic'' then
        JObj [(''model'', JStr ''claude-3-sonnet-20240229''), (''max_tokens'', JNum 1000),
              (''system'', JStr (systemMessage ctx)),
              (''messages'',
                 JArr (map (\<lambda>m. JObj
                       [(''role'', JStr (if role m = Assistant then ''assistant'' else ''user'')),
                        (''content'', JStr (content m))]) ?kept))]
      else
        JObj [(''contents'',
                 JArr (JObj [(''parts'', JArr [JObj [(''text'', JStr (systemMessage ctx))]])]
                   # map (\<lambda>m. JObj
                       [(''parts'', JArr [JObj [(''text'', JStr (content m))]]),
                        (''role'', JStr (if role m = Assistant then ''model'' else ''user''))])
                     ?kept)),
              (''generationConfig'',
                 JObj [(''maxOutputTokens'', JNum 1000), (''temperature'', JNum (7 / 10))])])"
    using b getProvider_cases [of pid] Some
    by (auto simp: buildRequestBody_def Let_def)
  show ?thesis
    unfolding 1 2 by (simp add: Some 3 Let_def kept sys)
qed

theorem chat_request_body_witness:
  "map body (fst (chat (new_AIService ''sk-test'' ''google'') (always Rejected)
      [\<lparr>role = System, content = ''be rude''\<rparr>, \<lparr>role = User, content = ''What is it?''\<rparr>,
       \<lparr>role = Assistant, content = ''A leaf.''\<rparr>] (Some ''Photosynthesis''))) =
   [JObj [(''contents'',
      JArr [JObj [(''parts'', JArr [JObj [(''text'', JStr
               ''You are an AI learning assistant. Help the user understand and learn from this content: Photosynthesis...'')]])],
            JObj [(''parts'', JArr [JObj [(''text'', JStr ''What is it?'')]]), (''role'', JStr ''user'')],
            JObj [(''parts'', JArr [JObj [(''text'', JStr ''A leaf.'')]]), (''role'', JStr ''model'')]]),
     (''generationConfig'', JObj [(''maxOutputTokens'', JNum 1000), (''temperature'', JNum (7 / 10))])]]"
  using chat_request_body [where key = "''sk-test''" and pid = "''google''"
      and net = "always Rejected"
      and msgs = "[\<lparr>role = System, content = ''be rude''\<rparr>,
                   \<lparr>role = User, content = ''What is it?''\<rparr>,
                   \<lparr>role = Assistant, content = ''A leaf.''\<rparr>]"
      and ctx = "Some ''Photosynthesis''"]
  by (simp add: getProvider_known Let_def)

lemma extractResponse_null:
  assumes "nullish data"
    and "name p = ''OpenAI'' \<or> name p = ''Anthropic'' \<or> name p = ''Google''"
  shows "extractResponse p data = Inl (Native ''TypeError'')"
  using assms by (auto simp: extractResponse_def get_prop_def)

lemma chat_raised:
  "provider svc = Some p \<Longrightarrow> buildRequestBody p msgs (systemMessage ctx) = Inr b \<Longrightarrow>
   net \<lparr>url = baseUrl p, http_method = ''POST'', headers = chat_headers (apiKey svc) p,
        body = b\<rparr> = Response status (Some data) \<Longrightarrow>
   ok status \<Longrightarrow> extractResponse p data = Inl e \<Longrightarrow>
   snd (chat svc net msgs ctx) = Inl (chat_catch e)"
  by (simp add: chat_def Let_def)

text \<open>
  Claim C10. The provider answers every request with a 2xx status and a parsed body
  \<open>data\<close>, and \<open>f\<close> is what the provider's optional chain reads from it. For a body
  other than null: when \<open>f\<close> is undefined (the path is absent) or the empty string,
  \<^verbatim>\<open>chat\<close> returns "No response received", and when \<open>f\<close> is truthy, \<^verbatim>\<open>chat\<close>
  returns it. For the body null, where the path is absent as well, \<^verbatim>\<open>chat\<close> does not
  return the literal: the first property is read without \<^verbatim>\<open>?.\<close>, the read raises, and
  \<^verbatim>\<open>chat\<close> raises the connection error. Whatever the provider and the transport,
  \<^verbatim>\<open>chat\<close> never returns the empty string.
\<close>

theorem chat_response_text:
  assumes "getProvider pid = Some p"
    and "\<And>req. net req = Response status (Some data)" and "ok status"
    and "f = (if name p = ''OpenAI'' then
                opt_prop ''content'' (opt_prop ''message'' (opt_index0 (read_prop ''choices'' data)))
              else if name p = ''Anthropic'' then
                opt_prop ''text'' (opt_index0 (read_prop ''content'' data))
              else
                opt_prop ''text'' (opt_index0 (opt_prop ''parts''
                  (opt_prop ''content'' (opt_index0 (read_prop ''candidates'' data))))))"
  shows "(nullish data \<longrightarrow>
            snd (chat (new_AIService key pid) net msgs ctx) =
              Inl (Api \<lparr>type = Network, message = JStr ''Connection failed'',
                        suggestion = ''Please check your internet connection and try again.''\<rparr>)) \<and>
         (\<not> nullish data \<longrightarrow>
            (f = Undefined \<or> f = JStr [] \<longrightarrow>
               snd (chat (new_AIService key pid) net msgs ctx)
                 = Inr (JStr ''No response received'')) \<and>
            (truthy f \<longrightarrow> snd (chat (new_AIService key pid) net msgs ctx) = Inr f)) \<and>
         snd (chat svc' net' msgs' ctx') \<noteq> Inr (JStr [])"
proof -
  have p: "provider (new_AIService key pid) = Some p"
    using assms(1) by simp
  obtain b where b: "buildRequestBody p msgs (systemMessage ctx) = Inr b"
    using buildRequestBody_total [OF assms(1)] by blast
  have null: "snd (chat (new_AIService key pid) net msgs ctx) =
              Inl (Api \<lparr>type = Network, message = JStr ''Connection failed'',
                        suggestion = ''Please check your internet connection and try again.''\<rparr>)"
    if n: "nullish data"
  proof -
    have e: "extractResponse p data = Inl (Native ''TypeError'')"
      by (rule extractResponse_null [OF n getProvider_name [OF assms(1)]])
    have "snd (chat (new_AIService key pid) net msgs ctx) = Inl (chat_catch (Native ''TypeError''))"
      by (rule chat_raised [OF p b assms(2) assms(3) e])
    then show ?thesis by (simp add: chat_catch_def)
  qed
  have r: "snd (chat (new_AIService key pid) net msgs ctx)
      = Inr (js_or f (JStr ''No response received''))"
    if n: "\<not> nullish data"
  proof -
    have e: "extractResponse p data = Inr (js_or f (JStr ''No response received''))"
      by (rule extractResponse_falsy [OF n assms(4) getProvider_name [OF assms(1)]])
    show ?thesis
      by (rule chat_ok [OF p b assms(2) assms(3) e])
  qed
  have t: "snd (chat svc' net' msgs' ctx') \<noteq> Inr (JStr [])"
    using chat_result_truthy [of svc' net' msgs' ctx' "JStr []"] by auto
  show ?thesis
    using t null by (auto simp: r js_or_def)
qed

theorem chat_response_text_witness:
  "snd (chat (new_AIService ''sk-test'' ''openai'') (always (Response 200 (Some Null)))
          [\<lparr>role = User, content = ''hi''\<rparr>] None) =
     Inl (Api \<lparr>type = Network, message = JStr ''Connection failed'',
               suggestion = ''Please check your internet connection and try again.''\<rparr>) \<and>
   snd (chat (new_AIService ''sk-test'' ''openai'')
          (always (Response 200 (Some (openai_reply ''''))))
          [\<lparr>role = User, content = ''hi''\<rparr>] None) = Inr (JStr ''No response received'') \<and>
   snd (chat (new_AIService ''sk-test'' ''anthropic'') (always (Response 200 (Some (JObj []))))
          [\<lparr>role = User, content = ''hi''\<rparr>] None) = Inr (JStr ''No response received'') \<and>
   snd (chat (new_AIService ''sk-test'' ''openai'')
          (always (Response 200 (Some (openai_reply ''''))))
          [\<lparr>role = User, content = ''hi''\<rparr>] None) \<noteq> Inr (JStr [])"
proof -
  let ?openai = "\<lparr>name = ''OpenAI'', baseUrl = ''https://api.openai.com/v1/chat/completions'',
             model = ''gpt-3.5-turbo''\<rparr>"
  let ?anthropic = "\<lparr>name = ''Anthropic'', baseUrl = ''https://api.anthropic.com/v1/messages'',
         model = ''claude-3-sonnet-20240229''\<rparr>"
  have o: "ok 200" by (simp add: ok_def)
  have a0: "always (Response 200 (Some Null)) req = Response 200 (Some Null)" for req
    by (simp add: always_def)
  have f0: "Undefined =
     (if name ?openai = ''OpenAI'' then
        opt_prop ''content'' (opt_prop ''message'' (opt_index0 (read_prop ''choices'' Null)))
      else if name ?openai = ''Anthropic'' then
        opt_prop ''text'' (opt_index0 (read_prop ''content'' Null))
      else
        opt_prop ''text'' (opt_index0 (opt_prop ''parts''
          (opt_prop ''content'' (opt_index0 (read_prop ''candidates'' Null))))))"
    by (simp add: opt_prop_def opt_index0_def)
  have f: "JStr [] =
     (if name ?openai = ''OpenAI'' then
        opt_prop ''content''
          (opt_prop ''message'' (opt_index0 (read_prop ''choices'' (openai_reply ''''))))
      else if name ?openai = ''Anthropic'' then
        opt_prop ''text'' (opt_index0 (read_prop ''content'' (openai_reply '''')))
      else
        opt_prop ''text'' (opt_index0 (opt_prop ''parts''
          (opt_prop ''content'' (opt_index0 (read_prop ''candidates'' (openai_reply '''')))))))"
    by (simp add: openai_reply_def opt_prop_def opt_index0_def)
  have n: "\<not> nullish (openai_reply '''')" by (simp add: openai_reply_def)
  have a: "always (Response 200 (Some (openai_reply ''''))) req
      = Response 200 (Some (openai_reply ''''))" for req
    by (simp add: always_def)
  have f': "Undefined =
     (if name ?anthropic = ''OpenAI'' then
        opt_prop ''content'' (opt_prop ''message'' (opt_index0 (read_prop ''choices'' (JObj []))))
      else if name ?anthropic = ''Anthropic'' then
        opt_prop ''text'' (opt_index0 (read_prop ''content'' (JObj [])))
      else
        opt_prop ''text'' (opt_index0 (opt_prop ''parts''
          (opt_prop ''content'' (opt_index0 (read_prop ''candidates'' (JObj [])))))))"
    by (simp add: opt_prop_def opt_index0_def)
  have a': "always (Response 200 (Some (JObj []))) req = Response 200 (Some (JObj []))" for req
    by (simp add: always_def)
  show ?thesis
    using chat_response_text [OF getProvider_known(1) a0 o f0, where key = "''sk-test''"
        and msgs = "[\<lparr>role = User, content = ''hi''\<rparr>]" and ctx = None]
      chat_response_text [OF getProvider_known(1) a o f, where key = "''sk-test''"
        and msgs = "[\<lparr>role = User, content = ''hi''\<rparr>]" and ctx = None
        and svc' = "new_AIService ''sk-test'' ''openai''"
        and net' = "always (Response 200 (Some (openai_reply '''')))"
        and msgs' = "[\<lparr>role = User, content = ''hi''\<rparr>]" and ctx' = None]
      chat_response_text [OF getProvider_known(2) a' o f', where key = "''sk-test''"
        and msgs = "[\<lparr>role = User, content = ''hi''\<rparr>]" and ctx = None]
      n
    by simp
qed

section \<open>The error classifier\<close>

lemma take_length_prefix: "take (length s) t = s \<longleftrightarrow> (\<exists>post. t = s @ post)"
proof
  assume "take (length s) t = s"
  then have "t = s @ drop (length s) t" by (metis append_take_drop_id)
  then show "\<exists>post. t = s @ post" ..
next
  assume "\<exists>post. t = s @ post"
  then show "take (length s) t = s" by auto
qed

lemma str_includes_iff: "str_includes t s \<longleftrightarrow> (\<exists>pre post. t = pre @ s @ post)"
proof (induction t)
  case Nil
  show ?case by auto
next
  case (Cons c t)
  show ?case
  proof
    assume "str_includes (c # t) s"
    then consider "take (length s) (c # t) = s" | "str_includes t s" by auto
    then show "\<exists>pre post. c # t = pre @ s @ post"
    proof cases
      case 1
      then obtain post where "c # t = s @ post" using take_length_prefix by blast
      then have "c # t = [] @ s @ post" by simp
      then show ?thesis by blast
    next
      case 2
      then obtain pre post where "t = pre @ s @ post" using Cons.IH by blast
      then have "c # t = (c # pre) @ s @ post" by simp
      then show ?thesis by blast
    qed
  next
    assume "\<exists>pre post. c # t = pre @ s @ post"
    then obtain pre post where d: "c # t = pre @ s @ post" by blast
    show "str_includes (c # t) s"
    proof (cases pre)
      case Nil
      with d have "take (length s) (c # t) = s" using take_length_prefix[of s "c # t"] by auto
      then show ?thesis by simp
    next
      case (Cons a pre')
      with d have "t = pre' @ s @ post" by simp
      then have "str_includes t s" using Cons.IH by blast
      then show ?thesis by simp
    qed
  qed
qed

lemma errorMessage_value:
  "\<not> nullish errorData \<Longrightarrow>
   errorMessage errorData =
     Inr (js_or (js_or (opt_prop ''message'' (read_prop ''error'' errorData))
                  (read_prop ''message'' errorData)) (JStr ''Unknown error''))"
  by (simp add: errorMessage_def get_prop_def)

text \<open>
  Claim C3, as stated, at status 400 with the body \<^verbatim>\<open>{"error":{"message":""}}\<close>: the
  message is present in the vendor body and is not copied, the result carries
  "Unknown error", since \<^verbatim>\<open>||\<close> passes over an empty string. And at status 401 with
  the body \<^verbatim>\<open>null\<close> the classifier does not yield auth: reading \<^verbatim>\<open>errorData.error\<close>
  raises.
\<close>

theorem parseError_counterexample:
  "parseError 400 (JObj [(''error'', JObj [(''message'', JStr '''')])]) =
     Inr \<lparr>type = Unknown, message = JStr ''Unknown error'',
          suggestion = ''Please try again or contact support if the issue persists.''\<rparr> \<and>
   parseError 401 Null = Inl (Native ''TypeError'')"
  by (simp add: parseError_def errorMessage_def get_prop_def opt_prop_def js_or_def)

text \<open>
  Claim C3, amended. For every vendor body other than null, with \<open>msg\<close> the vendor
  message (\<^verbatim>\<open>error.message\<close> if truthy, else the top-level \<^verbatim>\<open>message\<close> if truthy, else
  "Unknown error"): status 401 yields auth "Invalid API key"; status 429 with a textual
  \<open>msg\<close> yields quota, with the billing suggestion exactly when the text contains
  "quota" or "billing" and the wait-and-retry suggestion otherwise; statuses 500, 502
  and 503 yield network "Service temporarily unavailable"; every other status yields
  unknown with \<open>msg\<close> as its message. The result depends on the status and the body
  alone.
\<close>

theorem parseError_classification:
  assumes "\<not> nullish errorData"
  shows
   "(let msg = js_or (js_or (opt_prop ''message'' (read_prop ''error'' errorData))
                        (read_prop ''message'' errorData)) (JStr ''Unknown error'')
     in parseError 401 errorData =
          Inr \<lparr>type = Auth, message = JStr ''Invalid API key'',
               suggestion = ''Please check your API key in Settings and make sure it's correct.''\<rparr> \<and>
        (\<forall>t. msg = JStr t \<longrightarrow>
           parseError 429 errorData =
             Inr (if (\<exists>pre post. t = pre @ ''quota'' @ post) \<or> (\<exists>pre post. t = pre @ ''billing'' @ post)
                  then \<lparr>type = Quota, message = JStr ''API quota exceeded'',
                        suggestion = ''Please check your billing details or try a different API provider.''\<rparr>
                  else \<lparr>type = Quota, message = JStr ''Rate limit exceeded'',
                        suggestion = ''Please wait a moment and try again.''\<rparr>)) \<and>
        (\<forall>status. status = 500 \<or> status = 502 \<or> status = 503 \<longrightarrow>
           parseError status errorData =
             Inr \<lparr>type = Network, message = JStr ''Service temporarily unavailable'',
                  suggestion = ''Please try again in a few moments.''\<rparr>) \<and>
        (\<forall>status. status \<noteq> 401 \<and> status \<noteq> 429 \<and> status \<noteq> 500 \<and> status \<noteq> 502 \<and> status \<noteq> 503 \<longrightarrow>
           parseError status errorData =
             Inr \<lparr>type = Unknown, message = msg,
                  suggestion = ''Please try again or contact support if the issue persists.''\<rparr>))"
  using assms
  by (auto simp: parseError_def errorMessage_value Let_def str_includes_iff)

theorem parseError_classification_witness:
  \<open>\<not> nullish (JObj [(''error'', JObj [(''message'', JStr ''You exceeded your current quota, please check billing'')])]) \<and>
   parseError 429 (JObj [(''error'', JObj [(''message'', JStr ''You exceeded your current quota, please check billing'')])]) =
     Inr \<lparr>type = Quota, message = JStr ''API quota exceeded'',
          suggestion = ''Please check your billing details or try a different API provider.''\<rparr> \<and>
   parseError 401 (JObj [(''error'', JObj [(''message'', JStr ''You exceeded your current quota, please check billing'')])]) =
     Inr \<lparr>type = Auth, message = JStr ''Invalid API key'',
          suggestion = ''Please check your API key in Settings and make sure it's correct.''\<rparr> \<and>
   parseError 503 (JObj [(''error'', JObj [(''message'', JStr ''You exceeded your current quota, please check billing'')])]) =
     Inr \<lparr>type = Network, message = JStr ''Service temporarily unavailable'',
          suggestion = ''Please try again in a few moments.''\<rparr> \<and>
   parseError 404 (JObj [(''error'', JObj [(''message'', JStr ''You exceeded your current quota, please check billing'')])]) =
     Inr \<lparr>type = Unknown, message = JStr ''You exceeded your current quota, please check billing'',
          suggestion = ''Please try again or contact support if the issue persists.''\<rparr>\<close>
proof -
  let ?t = "''You exceeded your current quota, please check billing''"
  let ?b = "JObj [(''error'', JObj [(''message'', JStr ?t)])]"
  have h: "\<not> nullish ?b" by simp
  have m: "js_or (js_or (opt_prop ''message'' (read_prop ''error'' ?b)) (read_prop ''message'' ?b))
             (JStr ''Unknown error'') = JStr ?t"
    by (simp add: js_or_def opt_prop_def)
  have q: "\<exists>pre post. ?t = pre @ ''quota'' @ post"
  proof -
    have "?t = ''You exceeded your current '' @ ''quota'' @ '', please check billing''" by simp
    then show ?thesis by blast
  qed
  note c = parseError_classification [OF h, unfolded m Let_def]
  have 1: "parseError 429 ?b = Inr \<lparr>type = Quota, message = JStr ''API quota exceeded'',
          suggestion = ''Please check your billing details or try a different API provider.''\<rparr>"
    using c q by presburger
  show ?thesis
    using h c 1 by simp
qed

section \<open>JSON extraction\<close>

lemma bracket_match_Some:
  assumes "CHR ''['' \<notin> set pre" and "CHR '']'' \<notin> set post"
  shows "bracket_match (pre @ CHR ''['' # mid @ CHR '']'' # post) = Some (CHR ''['' # mid @ [CHR '']''])"
proof -
  have 1: "dropWhile (\<lambda>c. c \<noteq> CHR ''['') (pre @ CHR ''['' # mid @ CHR '']'' # post)
        = CHR ''['' # mid @ CHR '']'' # post"
    using assms(1) by (auto simp: dropWhile_append3)
  have "rev (mid @ CHR '']'' # post) = rev post @ CHR '']'' # rev mid" by simp
  moreover have "dropWhile (\<lambda>c. c \<noteq> CHR '']'') (rev post @ CHR '']'' # rev mid) = CHR '']'' # rev mid"
    using assms(2) by (auto simp: dropWhile_append3)
  ultimately have 2: "dropWhile (\<lambda>c. c \<noteq> CHR '']'') (rev (mid @ CHR '']'' # post)) = CHR '']'' # rev mid"
    by simp
  show ?thesis
    unfolding bracket_match_def 1 by (simp only: list.case 2) simp
qed

lemma bracket_match_decompose:
  assumes "bracket_match s = Some m"
  shows "\<exists>pre mid post. s = pre @ CHR ''['' # mid @ CHR '']'' # post \<and>
           CHR ''['' \<notin> set pre \<and> CHR '']'' \<notin> set post \<and> m = CHR ''['' # mid @ [CHR '']'']"
proof -
  from assms obtain b t where d1: "dropWhile (\<lambda>c. c \<noteq> CHR ''['') s = b # t"
    by (auto simp: bracket_match_def split: list.splits)
  from assms d1 obtain r rs where d2: "dropWhile (\<lambda>c. c \<noteq> CHR '']'') (rev t) = r # rs"
    and m: "m = b # rev (r # rs)"
    by (auto simp: bracket_match_def split: list.splits)
  from d1 have b: "b = CHR ''[''" and s: "s = takeWhile (\<lambda>c. c \<noteq> CHR ''['') s @ b # t"
    by (auto simp: dropWhile_eq_Cons_conv)
  from d2 have r: "r = CHR '']''" and t: "rev t = takeWhile (\<lambda>c. c \<noteq> CHR '']'') (rev t) @ r # rs"
    by (auto simp: dropWhile_eq_Cons_conv)
  define pre where "pre = takeWhile (\<lambda>c. c \<noteq> CHR ''['') s"
  define post where "post = rev (takeWhile (\<lambda>c. c \<noteq> CHR '']'') (rev t))"
  have t': "t = rev rs @ CHR '']'' # post"
  proof -
    have "t = rev (rev t)" by simp
    also have "\<dots> = rev (takeWhile (\<lambda>c. c \<noteq> CHR '']'') (rev t) @ r # rs)" using t by simp
    also have "\<dots> = rev rs @ CHR '']'' # post" by (simp add: post_def r)
    finally show ?thesis .
  qed
  have "s = pre @ CHR ''['' # rev rs @ CHR '']'' # post"
    using s t' b by (simp add: pre_def)
  moreover have "CHR ''['' \<notin> set pre"
    unfolding pre_def by (auto dest: set_takeWhileD)
  moreover have "CHR '']'' \<notin> set post"
    unfolding post_def by (auto dest: set_takeWhileD)
  moreover have "m = CHR ''['' # rev rs @ [CHR '']'']" using m b r by simp
  ultimately show ?thesis by blast
qed

lemma bracket_match_None:
  assumes "\<nexists>pre mid post. s = pre @ CHR ''['' # mid @ CHR '']'' # post"
  shows "bracket_match s = None"
proof (cases "bracket_match s")
  case None
  then show ?thesis .
next
  case (Some m)
  then show ?thesis using bracket_match_decompose [OF Some] assms by blast
qed

lemma parse_or_fallback_text:
  "parse_or_fallback plat fb (Inr (JStr s)) =
     (case bracket_match s of
        None \<Rightarrow> fb
      | Some m \<Rightarrow> (case JSON_parse plat m of None \<Rightarrow> fb | Some v \<Rightarrow> v))"
  by (simp add: parse_or_fallback_def split: option.splits)

lemma parse_or_fallback_cases:
  "parse_or_fallback plat fb r = fb \<or>
   (\<exists>s m. r = Inr (JStr s) \<and> bracket_match s = Some m \<and>
          JSON_parse plat m = Some (parse_or_fallback plat fb r))"
proof (cases r)
  case (Inl e)
  then show ?thesis by (simp add: parse_or_fallback_def)
next
  case (Inr v)
  show ?thesis
  proof (cases v)
    case (JStr s)
    with Inr show ?thesis
      by (auto simp: parse_or_fallback_text split: option.splits)
  qed (simp_all add: Inr parse_or_fallback_def)
qed

lemma generateFlashcards_result:
  "snd (generateFlashcards plat svc net cont) =
     Inr (parse_or_fallback plat (createFallbackFlashcards cont)
            (snd (chat svc net [\<lparr>role = User, content = flashcards_prompt @ take 3000 cont\<rparr>] None)))"
  by (simp add: generateFlashcards_def Let_def split: prod.splits)

lemma generateQuiz_result:
  "snd (generateQuiz plat svc net cont) =
     Inr (parse_or_fallback plat (createFallbackQuiz cont)
            (snd (chat svc net [\<lparr>role = User, content = quiz_prompt @ take 3000 cont\<rparr>] None)))"
  by (simp add: generateQuiz_def Let_def split: prod.splits)

text \<open>
  Claim C6. Let the call succeed with the response text \<open>s\<close>. If \<open>s\<close> is prose without
  an opening bracket, then a bracketed part, then prose without a closing bracket, the
  result of \<^verbatim>\<open>generateFlashcards\<close> (and of \<^verbatim>\<open>generateQuiz\<close>) is what \<^verbatim>\<open>JSON.parse\<close> gives
  for the bracketed part, from the first opening to the last closing bracket inclusive,
  and the fallback deck where \<^verbatim>\<open>JSON.parse\<close> rejects it. If \<open>s\<close> has no opening bracket
  with a closing bracket after it, the result is the fallback deck.
\<close>

theorem json_extraction:
  "(snd (chat svc net [\<lparr>role = User, content = flashcards_prompt @ take 3000 cont\<rparr>] None) = Inr (JStr s) \<longrightarrow>
      (\<forall>pre mid post. s = pre @ CHR ''['' # mid @ CHR '']'' # post \<and>
           CHR ''['' \<notin> set pre \<and> CHR '']'' \<notin> set post \<longrightarrow>
         snd (generateFlashcards plat svc net cont) =
           Inr (case JSON_parse plat (CHR ''['' # mid @ [CHR '']'']) of
                  Some v \<Rightarrow> v | None \<Rightarrow> createFallbackFlashcards cont)) \<and>
      ((\<nexists>pre mid post. s = pre @ CHR ''['' # mid @ CHR '']'' # post) \<longrightarrow>
         snd (generateFlashcards plat svc net cont) = Inr (createFallbackFlashcards cont))) \<and>
   (snd (chat svc net [\<lparr>role = User, content = quiz_prompt @ take 3000 cont\<rparr>] None) = Inr (JStr s) \<longrightarrow>
      (\<forall>pre mid post. s = pre @ CHR ''['' # mid @ CHR '']'' # post \<and>
           CHR ''['' \<notin> set pre \<and> CHR '']'' \<notin> set post \<longrightarrow>
         snd (generateQuiz plat svc net cont) =
           Inr (case JSON_parse plat (CHR ''['' # mid @ [CHR '']'']) of
                  Some v \<Rightarrow> v | None \<Rightarrow> createFallbackQuiz cont)) \<and>
      ((\<nexists>pre mid post. s = pre @ CHR ''['' # mid @ CHR '']'' # post) \<longrightarrow>
         snd (generateQuiz plat svc net cont) = Inr (createFallbackQuiz cont)))"
proof -
  have a: "parse_or_fallback plat fb (Inr (JStr (pre @ CHR ''['' # mid @ CHR '']'' # post))) =
      (case JSON_parse plat (CHR ''['' # mid @ [CHR '']'']) of Some v \<Rightarrow> v | None \<Rightarrow> fb)"
    if "CHR ''['' \<notin> set pre" "CHR '']'' \<notin> set post" for fb pre mid post
    using bracket_match_Some [OF that, of mid]
    by (simp add: parse_or_fallback_text split: option.splits)
  have b: "parse_or_fallback plat fb (Inr (JStr s)) = fb"
    if "\<nexists>pre mid post. s = pre @ CHR ''['' # mid @ CHR '']'' # post" for fb
    using bracket_match_None [OF that] by (simp add: parse_or_fallback_text)
  show ?thesis
    using b by (auto simp: generateFlashcards_result generateQuiz_result a)
qed

theorem json_extraction_witness:
  \<open>snd (generateFlashcards sample_platform (new_AIService ''sk-test'' ''openai'')
      (always (Response 200 (Some (openai_reply ''Intro text [{"question":"Q1","answer":"A1"}] trailing''))))
      ''notes'') = Inr (JArr [flashcard ''Q1'' ''A1''])\<close>
proof -
  let ?s = \<open>''Intro text [{"question":"Q1","answer":"A1"}] trailing''\<close>
  let ?net = "always (Response 200 (Some (openai_reply ?s)))"
  have c: "snd (chat (new_AIService ''sk-test'' ''openai'') ?net
      [\<lparr>role = User, content = flashcards_prompt @ take 3000 ''notes''\<rparr>] None) = Inr (JStr ?s)"
    by (rule chat_openai_reply) simp
  have d: \<open>?s = ''Intro text '' @ CHR ''['' # ''{"question":"Q1","answer":"A1"}'' @ CHR '']'' # '' trailing''
     \<and> CHR ''['' \<notin> set ''Intro text '' \<and> CHR '']'' \<notin> set '' trailing''\<close>
    by simp
  have p: \<open>JSON_parse sample_platform (CHR ''['' # ''{"question":"Q1","answer":"A1"}'' @ [CHR '']''])
     = Some (JArr [flashcard ''Q1'' ''A1''])\<close>
    by (simp add: sample_platform_def sample_parse_def)
  from json_extraction [where plat = sample_platform and svc = "new_AIService ''sk-test'' ''openai''"
      and net = ?net and cont = "''notes''" and s = ?s]
  have "\<forall>pre mid post. ?s = pre @ CHR ''['' # mid @ CHR '']'' # post \<and>
           CHR ''['' \<notin> set pre \<and> CHR '']'' \<notin> set post \<longrightarrow>
         snd (generateFlashcards sample_platform (new_AIService ''sk-test'' ''openai'') ?net ''notes'') =
           Inr (case JSON_parse sample_platform (CHR ''['' # mid @ [CHR '']'']) of
                  Some v \<Rightarrow> v | None \<Rightarrow> createFallbackFlashcards ''notes'')"
    using c by blast
  from this [rule_format, OF d] show ?thesis
    by (simp only: p option.case)
qed

section \<open>Generation through the hook\<close>

lemma useAI_generateFlashcards_live:
  assumes "cfg_apiKey cfg \<noteq> []" and "cont \<noteq> []"
  shows "snd (useAI_generateFlashcards cfg (Some cont) plat net st) =
     (Inr (parse_or_fallback plat (createFallbackFlashcards cont)
        (snd (chat (new_AIService (cfg_apiKey cfg) (cfg_provider cfg)) net
           [\<lparr>role = User, content = flashcards_prompt @ take 3000 cont\<rparr>] None))),
      st\<lparr>loading := False, error := None\<rparr>)"
  using assms
  by (simp add: useAI_generateFlashcards_def configured generateFlashcards_def Let_def
      split: prod.splits)

lemma useAI_generateQuiz_live:
  assumes "cfg_apiKey cfg \<noteq> []" and "cont \<noteq> []"
  shows "snd (useAI_generateQuiz cfg (Some cont) plat net st) =
     (Inr (parse_or_fallback plat (createFallbackQuiz cont)
        (snd (chat (new_AIService (cfg_apiKey cfg) (cfg_provider cfg)) net
           [\<lparr>role = User, content = quiz_prompt @ take 3000 cont\<rparr>] None))),
      st\<lparr>loading := False, error := None\<rparr>)"
  using assms
  by (simp add: useAI_generateQuiz_def configured generateQuiz_def Let_def
      split: prod.splits)

lemma fixed_flashcard_decks:
  "is_deck is_flashcard (createFallbackFlashcards cont)"
  "is_deck is_flashcard demo_flashcards_unconfigured"
  "is_deck is_flashcard demo_flashcards_no_content"
  by (simp_all add: is_deck_def is_flashcard_def createFallbackFlashcards_def
      demo_flashcards_unconfigured_def demo_flashcards_no_content_def flashcard_def)

lemma fixed_quiz_decks:
  "is_deck is_quiz_question (createFallbackQuiz cont)"
  "is_deck is_quiz_question demo_quiz_unconfigured"
  "is_deck is_quiz_question demo_quiz_no_content"
  by (simp_all add: is_deck_def is_quiz_question_def createFallbackQuiz_def
      demo_quiz_unconfigured_def demo_quiz_no_content_def quiz_question_def)

lemma bracket_match_empty_array: "bracket_match ''[]'' = Some ''[]''"
  by (simp add: bracket_match_def)

text \<open>
  Claim C1, as stated, at a successful call whose response text is \<^verbatim>\<open>[]\<close>: the
  bracketed part parses to the empty array, which is returned as it is, so the returned
  sequence is empty.
\<close>

theorem generation_shape_counterexample:
  "fst (snd (useAI_generateFlashcards (with_key ''openai'') (Some ''notes'') sample_platform
       (always (Response 200 (Some (openai_reply ''[]'')))) idle)) = Inr (JArr []) \<and>
   \<not> is_deck is_flashcard (JArr [])"
proof -
  have k: "cfg_apiKey (with_key ''openai'') \<noteq> []" by (simp add: with_key_def)
  have c: "snd (chat (new_AIService (cfg_apiKey (with_key ''openai''))
                   (cfg_provider (with_key ''openai'')))
       (always (Response 200 (Some (openai_reply ''[]'')))) msgs None) = Inr (JStr ''[]'')" for msgs
    unfolding with_key_def
    by (simp only: config.simps) (rule chat_openai_reply, simp)
  have p: "parse_or_fallback sample_platform fb (Inr (JStr ''[]'')) = JArr []" for fb
    by (simp add: parse_or_fallback_text bracket_match_empty_array sample_platform_def
        sample_parse_def)
  have "snd (useAI_generateFlashcards (with_key ''openai'') (Some ''notes'') sample_platform
       (always (Response 200 (Some (openai_reply ''[]'')))) idle)
     = (Inr (JArr []), idle\<lparr>loading := False, error := None\<rparr>)"
    by (simp only: useAI_generateFlashcards_live [OF k, of "''notes''", simplified] c p)
  then show ?thesis by (simp add: is_deck_def)
qed

text \<open>
  Claim C1, amended. For every key, content, platform, outcome of the provider call and
  state, the hook's \<^verbatim>\<open>generateFlashcards\<close> and \<^verbatim>\<open>generateQuiz\<close> return normally. The value
  returned is one of the operation's fixed decks (the demo deck without a key, the demo
  deck without content, the adapter's fallback deck), each a non-empty sequence whose
  every element has the operation's shape (a question and an answer that are strings; a
  question, exactly four options and a correct index from 0 to 3); or else there is a
  key and non-empty content, the call of this operation succeeded with a response text,
  and the value is what \<^verbatim>\<open>JSON.parse\<close> gave for the bracketed part of that text, passed
  on without any check of its shape.
\<close>

theorem generation_never_raises:
  "(\<exists>reqs v st'. useAI_generateFlashcards cfg rc plat net st = (reqs, Inr v, st') \<and>
       (is_deck is_flashcard v \<and>
        (v = demo_flashcards_unconfigured \<or> v = demo_flashcards_no_content \<or>
         (\<exists>cont. rc = Some cont \<and> v = createFallbackFlashcards cont))
        \<or>
        (\<exists>cont s m. cfg_apiKey cfg \<noteq> [] \<and> rc = Some cont \<and> cont \<noteq> [] \<and>
           snd (chat (new_AIService (cfg_apiKey cfg) (cfg_provider cfg)) net
                  [\<lparr>role = User, content = flashcards_prompt @ take 3000 cont\<rparr>] None)
             = Inr (JStr s) \<and>
           bracket_match s = Some m \<and> JSON_parse plat m = Some v))) \<and>
   (\<exists>reqs v st'. useAI_generateQuiz cfg rc plat net st = (reqs, Inr v, st') \<and>
       (is_deck is_quiz_question v \<and>
        (v = demo_quiz_unconfigured \<or> v = demo_quiz_no_content \<or>
         (\<exists>cont. rc = Some cont \<and> v = createFallbackQuiz cont))
        \<or>
        (\<exists>cont s m. cfg_apiKey cfg \<noteq> [] \<and> rc = Some cont \<and> cont \<noteq> [] \<and>
           snd (chat (new_AIService (cfg_apiKey cfg) (cfg_provider cfg)) net
                  [\<lparr>role = User, content = quiz_prompt @ take 3000 cont\<rparr>] None)
             = Inr (JStr s) \<and>
           bracket_match s = Some m \<and> JSON_parse plat m = Some v)))"
proof -
  have live: "\<exists>reqs v st'. x = (reqs, Inr v, st') \<and> P v" if "snd x = (Inr w, s)" "P w"
    for x :: "request list \<times> (thrown + jsval) \<times> hook_state" and w s P
    using that by (cases x) auto
  have f: "\<exists>reqs v st'. useAI_generateFlashcards cfg rc plat net st = (reqs, Inr v, st') \<and>
       (is_deck is_flashcard v \<and>
        (v = demo_flashcards_unconfigured \<or> v = demo_flashcards_no_content \<or>
         (\<exists>cont. rc = Some cont \<and> v = createFallbackFlashcards cont))
        \<or>
        (\<exists>cont s m. cfg_apiKey cfg \<noteq> [] \<and> rc = Some cont \<and> cont \<noteq> [] \<and>
           snd (chat (new_AIService (cfg_apiKey cfg) (cfg_provider cfg)) net
                  [\<lparr>role = User, content = flashcards_prompt @ take 3000 cont\<rparr>] None)
             = Inr (JStr s) \<and>
           bracket_match s = Some m \<and> JSON_parse plat m = Some v))"
  proof (cases "cfg_apiKey cfg = []")
    case True
    then show ?thesis
      by (simp add: useAI_generateFlashcards_def unconfigured fixed_flashcard_decks)
  next
    case k: False
    show ?thesis
    proof (cases "rc = None \<or> rc = Some []")
      case True
      then show ?thesis using k
        by (auto simp: useAI_generateFlashcards_def configured fixed_flashcard_decks)
    next
      case False
      then obtain cont where rc: "rc = Some cont" and c: "cont \<noteq> []" by auto
      let ?r = "snd (chat (new_AIService (cfg_apiKey cfg) (cfg_provider cfg)) net
                  [\<lparr>role = User, content = flashcards_prompt @ take 3000 cont\<rparr>] None)"
      let ?w = "parse_or_fallback plat (createFallbackFlashcards cont) ?r"
      have "?w = createFallbackFlashcards cont \<or>
          (\<exists>s m. ?r = Inr (JStr s) \<and> bracket_match s = Some m \<and> JSON_parse plat m = Some ?w)"
        by (rule parse_or_fallback_cases)
      then have "is_deck is_flashcard ?w \<and>
        (?w = demo_flashcards_unconfigured \<or> ?w = demo_flashcards_no_content \<or>
         (\<exists>cont'. Some cont = Some cont' \<and> ?w = createFallbackFlashcards cont'))
        \<or>
        (\<exists>cont' s m. cfg_apiKey cfg \<noteq> [] \<and> Some cont = Some cont' \<and> cont' \<noteq> [] \<and>
           snd (chat (new_AIService (cfg_apiKey cfg) (cfg_provider cfg)) net
                  [\<lparr>role = User, content = flashcards_prompt @ take 3000 cont'\<rparr>] None)
             = Inr (JStr s) \<and>
           bracket_match s = Some m \<and> JSON_parse plat m = Some ?w)"
        using k c fixed_flashcard_decks(1) [of cont] by auto
      then show ?thesis
        unfolding rc
        by (rule live [OF useAI_generateFlashcards_live [OF k c]])
    qed
  qed
  have q: "\<exists>reqs v st'. useAI_generateQuiz cfg rc plat net st = (reqs, Inr v, st') \<and>
       (is_deck is_quiz_question v \<and>
        (v = demo_quiz_unconfigured \<or> v = demo_quiz_no_content \<or>
         (\<exists>cont. rc = Some cont \<and> v = createFallbackQuiz cont))
        \<or>
        (\<exists>cont s m. cfg_apiKey cfg \<noteq> [] \<and> rc = Some cont \<and> cont \<noteq> [] \<and>
           snd (chat (new_AIService (cfg_apiKey cfg) (cfg_provider cfg)) net
                  [\<lparr>role = User, content = quiz_prompt @ take 3000 cont\<rparr>] None)
             = Inr (JStr s) \<and>
           bracket_match s = Some m \<and> JSON_parse plat m = Some v))"
  proof (cases "cfg_apiKey cfg = []")
    case True
    then show ?thesis
      by (simp add: useAI_generateQuiz_def unconfigured fixed_quiz_decks)
  next
    case k: False
    show ?thesis
    proof (cases "rc = None \<or> rc = Some []")
      case True
      then show ?thesis using k
        by (auto simp: useAI_generateQuiz_def configured fixed_quiz_decks)
    next
      case False
      then obtain cont where rc: "rc = Some cont" and c: "cont \<noteq> []" by auto
      let ?r = "snd (chat (new_AIService (cfg_apiKey cfg) (cfg_provider cfg)) net
                  [\<lparr>role = User, content = quiz_prompt @ take 3000 cont\<rparr>] None)"
      let ?w = "parse_or_fallback plat (createFallbackQuiz cont) ?r"
      have "?w = createFallbackQuiz cont \<or>
          (\<exists>s m. ?r = Inr (JStr s) \<and> bracket_match s = Some m \<and> JSON_parse plat m = Some ?w)"
        by (rule parse_or_fallback_cases)
      then have "is_deck is_quiz_question ?w \<and>
        (?w = demo_quiz_unconfigured \<or> ?w = demo_quiz_no_content \<or>
         (\<exists>cont'. Some cont = Some cont' \<and> ?w = createFallbackQuiz cont'))
        \<or>
        (\<exists>cont' s m. cfg_apiKey cfg \<noteq> [] \<and> Some cont = Some cont' \<and> cont' \<noteq> [] \<and>
           snd (chat (new_AIService (cfg_apiKey cfg) (cfg_provider cfg)) net
                  [\<lparr>role = User, content = quiz_prompt @ take 3000 cont'\<rparr>] None)
             = Inr (JStr s) \<and>
           bracket_match s = Some m \<and> JSON_parse plat m = Some ?w)"
        using k c fixed_quiz_decks(1) [of cont] by auto
      then show ?thesis
        unfolding rc
        by (rule live [OF useAI_generateQuiz_live [OF k c]])
    qed
  qed
  from f q show ?thesis by (rule conjI)
qed

theorem generation_never_raises_witness:
  "\<exists>reqs v st'.
     useAI_generateQuiz (with_key ''anthropic'') (Some ''notes'') sample_platform
       (always Rejected) idle = (reqs, Inr v, st') \<and>
     is_deck is_quiz_question v"
proof -
  let ?cfg = "with_key ''anthropic''"
  have failed: "\<exists>e. snd (chat svc (always Rejected) msgs None) = Inl e" for svc msgs
    by (rule chat_failed) (simp add: always_def)
  from generation_never_raises [where cfg = ?cfg and rc = "Some ''notes''"
      and plat = sample_platform and net = "always Rejected" and st = idle]
  obtain reqs v st' where
    r: "useAI_generateQuiz ?cfg (Some ''notes'') sample_platform (always Rejected) idle
          = (reqs, Inr v, st')"
    and d: "is_deck is_quiz_question v \<and>
        (v = demo_quiz_unconfigured \<or> v = demo_quiz_no_content \<or>
         (\<exists>cont. Some ''notes'' = Some cont \<and> v = createFallbackQuiz cont))
        \<or>
        (\<exists>cont s m. cfg_apiKey ?cfg \<noteq> [] \<and> Some ''notes'' = Some cont \<and> cont \<noteq> [] \<and>
           snd (chat (new_AIService (cfg_apiKey ?cfg) (cfg_provider ?cfg)) (always Rejected)
                  [\<lparr>role = User, content = quiz_prompt @ take 3000 cont\<rparr>] None)
             = Inr (JStr s) \<and>
           bracket_match s = Some m \<and> JSON_parse sample_platform m = Some v)"
    by blast
  have no: "snd (chat (new_AIService (cfg_apiKey ?cfg) (cfg_provider ?cfg)) (always Rejected)
                  [\<lparr>role = User, content = quiz_prompt @ take 3000 cont\<rparr>] None)
             \<noteq> Inr (JStr s)" for cont s
    using failed [of "new_AIService (cfg_apiKey ?cfg) (cfg_provider ?cfg)"
        "[\<lparr>role = User, content = quiz_prompt @ take 3000 cont\<rparr>]"]
    by auto
  from d no have "is_deck is_quiz_question v" by blast
  with r show ?thesis by blast
qed

text \<open>
  Claim C4. With a key and non-empty content, let the provider call fail: the transport
  rejects, or answers with a status outside 200 to 299. \<^verbatim>\<open>generateFlashcards\<close> and
  \<^verbatim>\<open>generateQuiz\<close> return the adapter's fixed fallback deck, the one a parse failure
  gives, and the recorded error is null afterwards: the adapter has already caught the
  error, so the \<^verbatim>\<open>catch\<close> block of the hook, which would record it, is never entered.
\<close>

theorem failed_call_error_state:
  assumes "cfg_apiKey cfg \<noteq> []" and "cont \<noteq> []"
    and "\<And>req. net req = Rejected \<or> (\<exists>status b. net req = Response status b \<and> \<not> ok status)"
  shows "snd (useAI_generateFlashcards cfg (Some cont) plat net st) =
           (Inr (createFallbackFlashcards cont), st\<lparr>loading := False, error := None\<rparr>) \<and>
         snd (useAI_generateQuiz cfg (Some cont) plat net st) =
           (Inr (createFallbackQuiz cont), st\<lparr>loading := False, error := None\<rparr>)"
proof -
  have failed: "\<exists>e. snd (chat svc net msgs None) = Inl e" for svc msgs
    by (rule chat_failed) (rule assms(3))
  have "parse_or_fallback plat fb (snd (chat svc net msgs None)) = fb" for fb svc msgs
    using failed [of svc msgs] by (auto simp: parse_or_fallback_def)
  then show ?thesis
    by (simp add: useAI_generateFlashcards_live [OF assms(1,2)]
        useAI_generateQuiz_live [OF assms(1,2)])
qed

theorem failed_call_error_state_witness:
  "snd (useAI_generateFlashcards (with_key ''openai'') (Some ''notes'') sample_platform
          (always (Response 401 None)) idle) =
     (Inr (createFallbackFlashcards ''notes''), idle) \<and>
   error (snd (snd (useAI_generateFlashcards (with_key ''openai'') (Some ''notes'')
          sample_platform (always (Response 401 None)) idle))) = None"
proof -
  have k: "cfg_apiKey (with_key ''openai'') \<noteq> []" by (simp add: with_key_def)
  have c: "''notes'' \<noteq> []" by simp
  have n: "(always (Response 401 None)) req = Rejected \<or>
      (\<exists>status b. (always (Response 401 None)) req = Response status b \<and> \<not> ok status)"
    for req :: request
    by (simp add: ok_def always_def)
  show ?thesis
    using failed_call_error_state [OF k c n, where plat = sample_platform and st = idle]
    by (simp add: idle_def)
qed

end
